theory Spec2Isabelle
  imports Main
begin

section \<open>JavaScript values as the handlers see them\<close>

text \<open>
  The values that flow through the front end: what \<open>JSON.parse\<close> yields for a response
  body, what a form field holds, what the authorization provider resolves to. Numbers are
  IEEE doubles in the browser; they stay a type parameter \<open>'n\<close>, and the few operations
  the code applies to them are fields of the runtime below.
\<close>

datatype 'n jsval =
    JUndefined
  | JNull
  | JBool bool
  | JNum 'n
  | JStr string
  | JArr "'n jsval list"
  | JObj "(string \<times> 'n jsval) list"

text \<open>A React state cell that holds \<open>undefined\<close>, \<open>null\<close> or an object (a \<open>File\<close>).\<close>

datatype 'a js_opt = Undef | Nul | Object 'a

record 'n runtime =
  num_falsy :: "'n \<Rightarrow> bool"                        \<comment> \<open>the number is \<open>0\<close> or \<open>NaN\<close>\<close>
  num_to_string :: "'n \<Rightarrow> string"                  \<comment> \<open>\<open>String(n)\<close>\<close>
  num_to_fixed4 :: "'n \<Rightarrow> string"                  \<comment> \<open>\<open>n.toFixed(4)\<close>\<close>
  parse_int :: "'n jsval \<Rightarrow> 'n"                    \<comment> \<open>\<open>parseInt(v)\<close>\<close>
  type_error_message :: "'n jsval \<Rightarrow> string \<Rightarrow> string"
    \<comment> \<open>message of the \<open>TypeError\<close> the engine throws when property \<open>p\<close> of \<open>v\<close> cannot be read or called\<close>

text \<open>\<open>value ? a : b\<close>, \<open>!value\<close>, \<open>value || d\<close>: JavaScript truthiness.\<close>

fun truthy :: "('n, 'm) runtime_scheme \<Rightarrow> 'n jsval \<Rightarrow> bool" where
  "truthy rt JUndefined = False"
| "truthy rt JNull = False"
| "truthy rt (JBool b) = b"
| "truthy rt (JNum n) = (\<not> num_falsy rt n)"
| "truthy rt (JStr s) = (s \<noteq> [])"
| "truthy rt (JArr xs) = True"
| "truthy rt (JObj kvs) = True"

text \<open>\<open>a || d\<close>\<close>

definition or_else :: "('n, 'm) runtime_scheme \<Rightarrow> 'n jsval \<Rightarrow> 'n jsval \<Rightarrow> 'n jsval" where
  "or_else rt a d = (if truthy rt a then a else d)"

text \<open>\<open>Array.prototype.join(',')\<close> on already converted elements.\<close>

fun join_comma :: "string list \<Rightarrow> string" where
  "join_comma [] = []"
| "join_comma [s] = s"
| "join_comma (s # t # ss) = s @ '','' @ join_comma (t # ss)"

text \<open>
  \<open>String(v)\<close>, as a template literal and \<open>new Error(v)\<close> apply it. An array joins its
  elements with commas, \<open>null\<close> and \<open>undefined\<close> elements giving the empty string; a plain
  object gives \<open>[object Object]\<close>.
\<close>

fun js_string :: "('n, 'm) runtime_scheme \<Rightarrow> 'n jsval \<Rightarrow> string" where
  "js_string rt JUndefined = ''undefined''"
| "js_string rt JNull = ''null''"
| "js_string rt (JBool b) = (if b then ''true'' else ''false'')"
| "js_string rt (JNum n) = num_to_string rt n"
| "js_string rt (JStr s) = s"
| "js_string rt (JArr xs) =
     join_comma (map (\<lambda>x. if x = JUndefined \<or> x = JNull then [] else js_string rt x) xs)"
| "js_string rt (JObj kvs) = ''[object Object]''"

text \<open>
  \<open>v.p\<close> for a property name that no prototype defines (\<open>detail\<close>, \<open>message\<close>,
  \<open>similarity\<close>): reading it from \<open>null\<close> or \<open>undefined\<close> throws a \<open>TypeError\<close>
  (\<open>Inl\<close> its message), a plain object gives its own property or \<open>undefined\<close>, every
  other value gives \<open>undefined\<close>.
\<close>

fun get_prop :: "('n, 'm) runtime_scheme \<Rightarrow> 'n jsval \<Rightarrow> string \<Rightarrow> string + 'n jsval" where
  "get_prop rt JUndefined p = Inl (type_error_message rt JUndefined p)"
| "get_prop rt JNull p = Inl (type_error_message rt JNull p)"
| "get_prop rt (JObj kvs) p = Inr (case map_of kvs p of None \<Rightarrow> JUndefined | Some v \<Rightarrow> v)"
| "get_prop rt v p = Inr JUndefined"

text \<open>\<open>`${n}`\<close> for a non-negative integer such as an HTTP status.\<close>

function dec :: "nat \<Rightarrow> string" where
  "dec n = (if n < 10 then [''0123456789'' ! n] else dec (n div 10) @ [''0123456789'' ! (n mod 10)])"
  by pat_completeness auto
termination
  by (relation "measure id") auto

declare dec.simps [simp del]

section \<open>The required validator\<close>

text \<open>
  \<^verbatim>\<open>const required = (message = 'Required') => value => value ? undefined : message;\<close>
  The same definition stands in LessonCreate.js and LessonEdit.js. The message argument is
  \<open>None\<close> when the call passes none (both call sites write \<open>required()\<close>); the result is
  \<open>None\<close> for \<open>undefined\<close>.
\<close>

definition required :: "('n, 'm) runtime_scheme \<Rightarrow> string option \<Rightarrow> 'n jsval \<Rightarrow> string option" where
  "required rt message v =
     (let message = (case message of None \<Rightarrow> ''Required'' | Some m \<Rightarrow> m)
      in if truthy rt v then None else Some message)"

section \<open>The browser around a handler\<close>

text \<open>A \<open>File\<close> picked in a file input.\<close>

record file_obj =
  file_name :: string
  file_bytes :: string

text \<open>
  The \<open>type\<close> option of \<open>notify\<close>; \<open>NDefault\<close> is a call that passes no options
  (\<open>notify('File uploaded successfully')\<close>).
\<close>

datatype level = NDefault | NInfo | NSuccess | NWarning | NError

datatype http_method = POST | DELETE

datatype 'n body =
    NoBody
  | FormData "(string \<times> file_obj) list"       \<comment> \<open>\<open>formData.append(name, file)\<close>\<close>
  | JsonBody "(string \<times> 'n jsval) list"        \<comment> \<open>\<open>JSON.stringify({...})\<close> of these properties\<close>

record 'n request =
  req_method :: http_method
  req_url :: string
  req_headers :: "(string \<times> string) list"
  req_body :: "'n body"

text \<open>
  What \<open>fetch\<close> resolves to. \<open>response.json()\<close> resolves to the parsed body or rejects
  (\<open>Inl\<close> the message of the parser's error); \<open>response.text()\<close> resolves to the raw body.
\<close>

record 'n response =
  status :: nat
  json_result :: "string + 'n jsval"
  text_result :: string

text \<open>\<open>response.ok\<close>: the status is in the range 200 to 299.\<close>

definition ok :: "'n response \<Rightarrow> bool" where
  "ok r = (200 \<le> status r \<and> status r \<le> 299)"

text \<open>
  What a handler reads and never writes: the JavaScript runtime, the build's
  \<open>process.env.REACT_APP_API_URL\<close>, \<open>localStorage.getItem('token')\<close> (\<open>None\<close> for
  \<open>null\<close>), the user's answer to \<open>window.confirm\<close>, and the network: \<open>fetch\<close> resolves
  to a response or rejects (\<open>Inl\<close> the error's message).
\<close>

record 'n env = "'n runtime" +
  api_url :: "string option"
  token :: "string option"
  confirm :: "string \<Rightarrow> bool"
  fetch :: "'n request \<Rightarrow> string + 'n response"

text \<open>
  What a handler does to the page, each kind of effect in the order it happened: requests
  handed to \<open>fetch\<close>, notifications, calls of \<open>refresh()\<close>, confirmation prompts shown,
  the values of the file inputs by element id, and \<open>console.error\<close> lines.
\<close>

record 'n page =
  requests :: "'n request list"
  notifications :: "(string \<times> level) list"
  refreshes :: nat
  prompts :: "string list"
  inputs :: "string \<Rightarrow> string option"
  console :: "(string \<times> string) list"

definition notify :: "string \<Rightarrow> level \<Rightarrow> 'n page \<Rightarrow> 'n page" where
  "notify m l pg = pg\<lparr>notifications := notifications pg @ [(m, l)]\<rparr>"

definition refresh :: "'n page \<Rightarrow> 'n page" where
  "refresh pg = pg\<lparr>refreshes := Suc (refreshes pg)\<rparr>"

definition console_error :: "string \<Rightarrow> string \<Rightarrow> 'n page \<Rightarrow> 'n page" where
  "console_error label m pg = pg\<lparr>console := console pg @ [(label, m)]\<rparr>"

definition send :: "'n env \<Rightarrow> 'n request \<Rightarrow> 'n page \<Rightarrow> (string + 'n response) \<times> 'n page" where
  "send env req pg = (fetch env req, pg\<lparr>requests := requests pg @ [req]\<rparr>)"

definition window_confirm :: "'n env \<Rightarrow> string \<Rightarrow> 'n page \<Rightarrow> bool \<times> 'n page" where
  "window_confirm env q pg = (confirm env q, pg\<lparr>prompts := prompts pg @ [q]\<rparr>)"

text \<open>\<^verbatim>\<open>const el = document.getElementById(i); if (el) el.value = '';\<close>\<close>

definition reset_input :: "string \<Rightarrow> 'n page \<Rightarrow> 'n page" where
  "reset_input i pg =
     (case inputs pg i of None \<Rightarrow> pg | Some _ \<Rightarrow> pg\<lparr>inputs := (inputs pg)(i \<mapsto> [])\<rparr>)"

text \<open>\<^verbatim>\<open>process.env.REACT_APP_API_URL || 'http://localhost:8000'\<close>\<close>

definition api_base :: "'n env \<Rightarrow> string" where
  "api_base env =
     (case api_url env of
        None \<Rightarrow> ''http://localhost:8000''
      | Some u \<Rightarrow> if u \<noteq> [] then u else ''http://localhost:8000'')"

text \<open>\<open>!token\<close>: nothing is stored, or the empty string is.\<close>

definition no_token :: "'n env \<Rightarrow> bool" where
  "no_token env = (case token env of None \<Rightarrow> True | Some t \<Rightarrow> t = [])"

text \<open>\<^verbatim>\<open>`Bearer ${token}`\<close>\<close>

definition bearer :: "'n env \<Rightarrow> string" where
  "bearer env = ''Bearer '' @ (case token env of None \<Rightarrow> ''null'' | Some t \<Rightarrow> t)"

text \<open>\<^verbatim>\<open>response.json().catch(() => d)\<close>\<close>

definition json_or :: "'n response \<Rightarrow> 'n jsval \<Rightarrow> 'n jsval" where
  "json_or response d = (case json_result response of Inl _ \<Rightarrow> d | Inr v \<Rightarrow> v)"

text \<open>
  \<^verbatim>\<open>throw new Error(errorData.detail || dflt)\<close>: the message of what is thrown, the
  engine's \<open>TypeError\<close> when \<open>errorData\<close> is \<open>null\<close>.
\<close>

definition thrown_detail :: "('n, 'm) runtime_scheme \<Rightarrow> 'n jsval \<Rightarrow> string \<Rightarrow> string" where
  "thrown_detail rt errorData dflt =
     (case get_prop rt errorData ''detail'' of
        Inl te \<Rightarrow> te
      | Inr d \<Rightarrow> js_string rt (or_else rt d (JStr dflt)))"

text \<open>\<open>m || d\<close> on strings.\<close>

definition str_or :: "string \<Rightarrow> string \<Rightarrow> string" where
  "str_or m d = (if m \<noteq> [] then m else d)"

text \<open>A record of the admin framework (\<open>useRecordContext()\<close>, a data grid row): its \<open>id\<close>.\<close>

record 'n ra_record =
  rec_id :: "'n jsval"

text \<open>A row of the enrollments grid: its \<open>user_id\<close>.\<close>

record 'n enrollment =
  user_id :: "'n jsval"

section \<open>LessonEdit.js: upload, enroll, delete, unenroll\<close>

text \<open>
  Each \<open>try\<close> block is a function that returns how the block ended, \<open>Inl\<close> the message
  of the error thrown or \<open>Inr ()\<close>, with the state and the page as they stand at that
  point; the handler then applies its \<open>catch\<close> block to an \<open>Inl\<close>.
\<close>

record upload_state =
  "file" :: "file_obj js_opt"
  fileName :: string

definition handleFileUpload_try ::
  "'n env \<Rightarrow> 'n ra_record \<Rightarrow> file_obj \<Rightarrow> upload_state \<Rightarrow> 'n page
     \<Rightarrow> (string + unit) \<times> upload_state \<times> 'n page" where
  "handleFileUpload_try env r f st pg =
     (if no_token env then
        (Inr (), st, notify ''Authentication token not found. Please log in.'' NWarning pg)
      else
        let (res, pg) = send env
              \<lparr>req_method = POST,
               req_url = api_base env @ ''/api/lessons/'' @ js_string env (rec_id r) @ ''/files'',
               req_headers = [(''Authorization'', bearer env)],
               req_body = FormData [(''file'', f)]\<rparr> pg
        in case res of
             Inl e \<Rightarrow> (Inl e, st, pg)
           | Inr response \<Rightarrow>
               if \<not> ok response then
                 (Inl (thrown_detail env
                         (json_or response (JObj [(''detail'', JStr ''File upload failed'')]))
                         ''File upload failed''), st, pg)
               else
                 (Inr (), st\<lparr>file := Nul, fileName := []\<rparr>,
                  reset_input ''file-upload-input-styled''
                    (refresh (notify ''File uploaded successfully'' NDefault pg))))"

definition handleFileUpload ::
  "'n env \<Rightarrow> 'n ra_record option \<Rightarrow> upload_state \<Rightarrow> 'n page \<Rightarrow> upload_state \<times> 'n page" where
  "handleFileUpload env rec st pg =
     (case (file st, rec) of
        (Object f, Some r) \<Rightarrow>
          (case handleFileUpload_try env r f st pg of
             (Inl message, st, pg) \<Rightarrow>
               (st, notify (''Error: '' @ str_or message ''File upload failed'') NWarning pg)
           | (Inr _, st, pg) \<Rightarrow> (st, pg))
      | _ \<Rightarrow> (st, pg))"

record 'n enroll_state =
  studentId :: "'n jsval"

definition handleEnroll_try ::
  "'n env \<Rightarrow> 'n ra_record \<Rightarrow> 'n enroll_state \<Rightarrow> 'n page
     \<Rightarrow> (string + unit) \<times> 'n enroll_state \<times> 'n page" where
  "handleEnroll_try env r st pg =
     (if no_token env then
        (Inr (), st, notify ''Authentication token not found. Please log in.'' NWarning pg)
      else
        let (res, pg) = send env
              \<lparr>req_method = POST,
               req_url = api_base env @ ''/api/lessons/'' @ js_string env (rec_id r) @ ''/enroll'',
               req_headers = [(''Content-Type'', ''application/json''),
                              (''Authorization'', bearer env)],
               req_body = JsonBody [(''user_id'', JNum (parse_int env (studentId st))),
                                    (''lesson_id'', rec_id r)]\<rparr> pg
        in case res of
             Inl e \<Rightarrow> (Inl e, st, pg)
           | Inr response \<Rightarrow>
               if \<not> ok response then
                 (Inl (thrown_detail env
                         (json_or response (JObj [(''detail'', JStr ''Enrollment failed'')]))
                         ''Enrollment failed''), st, pg)
               else
                 (Inr (), st\<lparr>studentId := JStr []\<rparr>,
                  refresh (notify ''Student enrolled successfully'' NDefault pg)))"

definition handleEnroll ::
  "'n env \<Rightarrow> 'n ra_record option \<Rightarrow> 'n enroll_state \<Rightarrow> 'n page \<Rightarrow> 'n enroll_state \<times> 'n page" where
  "handleEnroll env rec st pg =
     (if \<not> truthy env (studentId st) then (st, pg)
      else
        case rec of
          None \<Rightarrow> (st, pg)
        | Some r \<Rightarrow>
            (case handleEnroll_try env r st pg of
               (Inl message, st, pg) \<Rightarrow>
                 (st, notify (''Error: '' @ str_or message ''Enrollment failed'') NWarning pg)
             | (Inr _, st, pg) \<Rightarrow> (st, pg)))"

text \<open>
  The delete button of a file row and the unenroll button of an enrollment row keep no
  state of their own: they take the row and change the page only.
\<close>

definition handleDelete_try :: "'n env \<Rightarrow> 'n ra_record \<Rightarrow> 'n page \<Rightarrow> (string + unit) \<times> 'n page" where
  "handleDelete_try env r pg =
     (if no_token env then
        (Inr (), notify ''Authentication token not found. Please log in.'' NWarning pg)
      else
        let (res, pg) = send env
              \<lparr>req_method = DELETE,
               req_url = api_base env @ ''/api/files/'' @ js_string env (rec_id r),
               req_headers = [(''Authorization'', bearer env)],
               req_body = NoBody\<rparr> pg
        in case res of
             Inl e \<Rightarrow> (Inl e, pg)
           | Inr response \<Rightarrow>
               if \<not> ok response then
                 (Inl (''Failed to delete file. Status: '' @ dec (status response)
                         @ '', Message: '' @ text_result response), pg)
               else
                 (Inr (), refresh (notify ''File deleted successfully'' NInfo pg)))"

definition handleDelete :: "'n env \<Rightarrow> 'n ra_record \<Rightarrow> 'n page \<Rightarrow> 'n page" where
  "handleDelete env r pg =
     (let (yes, pg) = window_confirm env ''Are you sure you want to delete this file?'' pg
      in if yes then
           (case handleDelete_try env r pg of
              (Inl message, pg) \<Rightarrow>
                notify (''Error: '' @ str_or message ''Deletion failed'') NWarning pg
            | (Inr _, pg) \<Rightarrow> pg)
         else pg)"

definition unenroll_try ::
  "'n env \<Rightarrow> 'n ra_record \<Rightarrow> 'n enrollment \<Rightarrow> 'n page \<Rightarrow> (string + unit) \<times> 'n page" where
  "unenroll_try env currentLesson enrollmentRecord pg =
     (if no_token env then
        (Inr (), notify ''Authentication token not found. Please log in.'' NWarning pg)
      else
        let (res, pg) = send env
              \<lparr>req_method = DELETE,
               req_url = api_base env @ ''/api/lessons/'' @ js_string env (rec_id currentLesson)
                           @ ''/unenroll'',
               req_headers = [(''Content-Type'', ''application/json''),
                              (''Authorization'', bearer env)],
               req_body = JsonBody [(''user_id'', user_id enrollmentRecord),
                                    (''lesson_id'', rec_id currentLesson)]\<rparr> pg
        in case res of
             Inl e \<Rightarrow> (Inl e, pg)
           | Inr response \<Rightarrow>
               if \<not> ok response then
                 (Inl (thrown_detail env
                         (json_or response (JObj [(''detail'', JStr ''Unenrollment failed'')]))
                         ''Unenrollment failed''), pg)
               else
                 (Inr (), refresh (notify ''Student unenrolled successfully'' NDefault pg)))"

text \<open>The \<open>onClick\<close> of the unenroll button.\<close>

definition unenroll_onClick ::
  "'n env \<Rightarrow> 'n ra_record option \<Rightarrow> 'n enrollment \<Rightarrow> 'n page \<Rightarrow> 'n page" where
  "unenroll_onClick env currentLesson enrollmentRecord pg =
     (case currentLesson of
        None \<Rightarrow> notify ''Lesson context not found.'' NWarning pg
      | Some l \<Rightarrow>
          if \<not> truthy env (rec_id l) then notify ''Lesson context not found.'' NWarning pg
          else
            let (yes, pg) = window_confirm env
                  (''Are you sure you want to unenroll student ID ''
                     @ js_string env (user_id enrollmentRecord) @ ''?'') pg
            in if yes then
                 (case unenroll_try env l enrollmentRecord pg of
                    (Inl message, pg) \<Rightarrow>
                      notify (''Error: '' @ str_or message ''Unenrollment failed'') NWarning pg
                  | (Inr _, pg) \<Rightarrow> pg)
               else pg)"

section \<open>StudentLessonView.js: mark attendance\<close>

record attendance_state =
  selectedFile :: "file_obj js_opt"
  isAttendanceLoading :: bool
  attendanceServerMessage :: string
  attendanceServerMessageType :: level

text \<open>
  \<^verbatim>\<open>responseData.similarity.toFixed(4)\<close>: a \<open>TypeError\<close> when \<open>responseData\<close> is
  \<open>null\<close>, when \<open>similarity\<close> is missing or \<open>null\<close>, and when it is not a number (no
  other JSON value has a \<open>toFixed\<close> method).
\<close>

definition similarity_toFixed :: "('n, 'm) runtime_scheme \<Rightarrow> 'n jsval \<Rightarrow> string + string" where
  "similarity_toFixed rt responseData =
     (case get_prop rt responseData ''similarity'' of
        Inl te \<Rightarrow> Inl te
      | Inr (JNum n) \<Rightarrow> Inr (num_to_fixed4 rt n)
      | Inr v \<Rightarrow> Inl (type_error_message rt v ''toFixed''))"

definition handleMarkAttendance_try ::
  "'n env \<Rightarrow> 'n jsval \<Rightarrow> file_obj \<Rightarrow> attendance_state \<Rightarrow> 'n page
     \<Rightarrow> (string + unit) \<times> attendance_state \<times> 'n page" where
  "handleMarkAttendance_try env lessonId f st pg =
     (let (res, pg) = send env
            \<lparr>req_method = POST,
             req_url = api_base env @ ''/api/attendance/'' @ js_string env lessonId,
             req_headers = [(''Authorization'', bearer env)],
             req_body = FormData [(''file'', f)]\<rparr> pg
      in case res of
           Inl e \<Rightarrow> (Inl e, st, pg)
         | Inr response \<Rightarrow>
             (case json_result response of
                Inl e \<Rightarrow> (Inl e, st, pg)
              | Inr responseData \<Rightarrow>
                  if \<not> ok response then
                    (Inl (thrown_detail env responseData
                            (''HTTP error! Status: '' @ dec (status response))), st, pg)
                  else
                    (case similarity_toFixed env responseData of
                       Inl te \<Rightarrow> (Inl te, st, pg)
                     | Inr s \<Rightarrow>
                         let successMessage = ''Attendance confirmed! Similarity: '' @ s
                         in (Inr (),
                             st\<lparr>attendanceServerMessage := successMessage,
                                attendanceServerMessageType := NSuccess,
                                selectedFile := Nul\<rparr>,
                             reset_input ''attendance-image-input''
                               (notify successMessage NSuccess pg)))))"

definition handleMarkAttendance ::
  "'n env \<Rightarrow> 'n jsval \<Rightarrow> attendance_state \<Rightarrow> 'n page \<Rightarrow> attendance_state \<times> 'n page" where
  "handleMarkAttendance env lessonId st pg =
     (case selectedFile st of
        Object f \<Rightarrow>
          let st = st\<lparr>isAttendanceLoading := True, attendanceServerMessage := []\<rparr>;
              (st, pg) =
                (case handleMarkAttendance_try env lessonId f st pg of
                   (Inl message, st, pg) \<Rightarrow>
                     let pg = console_error ''Attendance marking error:'' message pg;
                         userFriendlyErrorMessage = str_or message ''An unknown error occurred.''
                     in (st\<lparr>attendanceServerMessage := userFriendlyErrorMessage,
                            attendanceServerMessageType := NError\<rparr>,
                         notify (''Attendance Error: '' @ userFriendlyErrorMessage) NError pg)
                 | (Inr _, st, pg) \<Rightarrow> (st, pg))
          in (st\<lparr>isAttendanceLoading := False\<rparr>, pg)
      | _ \<Rightarrow>
          (st\<lparr>attendanceServerMessage := ''Please select an image file to mark attendance.'',
              attendanceServerMessageType := NWarning\<rparr>,
           notify ''Please select a file to simulate camera capture.'' NWarning pg))"

section \<open>FaceRegistrationPage.js: register face\<close>

record 'n face_state =
  face_selectedFile :: "file_obj js_opt"       \<comment> \<open>\<open>selectedFile\<close>\<close>
  isLoading :: bool
  serverMessage :: "'n jsval"
  serverMessageType :: level

definition handleRegisterFace_try ::
  "'n env \<Rightarrow> file_obj \<Rightarrow> 'n face_state \<Rightarrow> 'n page
     \<Rightarrow> (string + unit) \<times> 'n face_state \<times> 'n page" where
  "handleRegisterFace_try env f st pg =
     (if no_token env then (Inl ''Authentication token not found.'', st, pg)
      else
        let (res, pg) = send env
              \<lparr>req_method = POST,
               req_url = api_base env @ ''/api/users/me/register-face'',
               req_headers = [(''Authorization'', bearer env)],
               req_body = FormData [(''file'', f)]\<rparr> pg
        in case res of
             Inl e \<Rightarrow> (Inl e, st, pg)
           | Inr response \<Rightarrow>
               (case json_result response of
                  Inl e \<Rightarrow> (Inl e, st, pg)
                | Inr responseData \<Rightarrow>
                    if \<not> ok response then
                      (Inl (thrown_detail env responseData
                              (''HTTP error! status: '' @ dec (status response))), st, pg)
                    else
                      (let pg = notify ''Face registered successfully!'' NSuccess pg
                       in (case get_prop env responseData ''message'' of
                             Inl te \<Rightarrow> (Inl te, st, pg)
                           | Inr m \<Rightarrow>
                               (Inr (),
                                st\<lparr>serverMessage :=
                                      or_else env m (JStr ''Face registered successfully!''),
                                   serverMessageType := NSuccess,
                                   face_selectedFile := Nul\<rparr>,
                                reset_input ''face-image-input'' pg)))))"

definition handleRegisterFace ::
  "'n env \<Rightarrow> 'n face_state \<Rightarrow> 'n page \<Rightarrow> 'n face_state \<times> 'n page" where
  "handleRegisterFace env st pg =
     (case face_selectedFile st of
        Object f \<Rightarrow>
          let st = st\<lparr>isLoading := True, serverMessage := JNull\<rparr>;
              (st, pg) =
                (case handleRegisterFace_try env f st pg of
                   (Inl message, st, pg) \<Rightarrow>
                     let pg = console_error ''Face registration error:'' message pg
                     in (st\<lparr>serverMessage :=
                               JStr (str_or message ''An unexpected error occurred.''),
                            serverMessageType := NError\<rparr>,
                         notify (''Error: '' @ message) NError pg)
                 | (Inr _, st, pg) \<Rightarrow> (st, pg))
          in (st\<lparr>isLoading := False\<rparr>, pg)
      | _ \<Rightarrow>
          (st\<lparr>serverMessage := JStr ''Please select an image file first.'',
              serverMessageType := NWarning\<rparr>,
           notify ''Please select an image file first.'' NWarning pg))"

section \<open>App: the role router\<close>

datatype component =
    Dashboard | UserList | UserEdit | UserCreate | AttendanceList
  | LessonList | LessonCreate | LessonEdit
  | StudentLessonList | StudentLessonView | FaceRegistrationPage

text \<open>
  What \<open>App\<close> puts under \<open>Admin\<close>: a \<open>Resource\<close> with its name and its \<open>list\<close>,
  \<open>edit\<close> and \<open>create\<close> views, or a \<open>Route\<close> of a \<open>CustomRoutes\<close> block with its path,
  its element, and whether \<open>Authenticated\<close> wraps the element.
\<close>

datatype mounted =
    Resource string "component option" "component option" "component option"
  | Route string component bool

datatype screen = LoadingPermissions | Admin "mounted list"

record 'n app_state =
  permissions :: "'n jsval"
  loadingPermissions :: bool

text \<open>
  The imported \<open>authProvider\<close> is not part of the sources at hand; it enters as what the
  effect hook can observe of it: no \<open>getPermissions\<close> at all, or a promise that resolves
  to a value or rejects.
\<close>

datatype 'n auth_provider = NoGetPermissions | Resolves "'n jsval" | Rejects

definition App_initial :: "'n app_state" where
  "App_initial = \<lparr>permissions = JNull, loadingPermissions = True\<rparr>"

text \<open>The effect hook, run once after the first render, with its promise settled.\<close>

definition App_effect :: "'n auth_provider \<Rightarrow> 'n app_state \<Rightarrow> 'n app_state" where
  "App_effect authProvider st =
     (case authProvider of
        Resolves perms \<Rightarrow> st\<lparr>permissions := perms, loadingPermissions := False\<rparr>
      | Rejects \<Rightarrow> st\<lparr>permissions := JNull, loadingPermissions := False\<rparr>
      | NoGetPermissions \<Rightarrow> st\<lparr>loadingPermissions := False, permissions := JStr ''teacher''\<rparr>)"

definition teacher_resources :: "mounted list" where
  "teacher_resources =
     [Resource ''users'' (Some UserList) (Some UserEdit) (Some UserCreate),
      Resource ''lessons'' (Some LessonList) (Some LessonEdit) (Some LessonCreate),
      Resource ''attendance'' (Some AttendanceList) None None,
      Resource ''lessonfiles'' None None None,
      Resource ''studentlessonenrollments'' None None None,
      Resource ''files'' None None None]"

definition student_routes :: "mounted list" where
  "student_routes =
     [Route ''/student/lessons'' StudentLessonList True,
      Route ''/student/lessons/:lessonId'' StudentLessonView True,
      Route ''/'' StudentLessonList True,
      Route ''/student/register-face'' FaceRegistrationPage True]"

definition fallback_routes :: "mounted list" where
  "fallback_routes = [Route ''/'' Dashboard False]"

text \<open>The render function of \<open>App\<close>: three conditional blocks, one after the other.\<close>

definition App :: "('n, 'm) runtime_scheme \<Rightarrow> 'n app_state \<Rightarrow> screen" where
  "App rt st =
     (if loadingPermissions st then LoadingPermissions
      else Admin
        ((if permissions st = JStr ''teacher'' then teacher_resources else [])
         @ (if permissions st = JStr ''student'' then student_routes else [])
         @ (if \<not> truthy rt (permissions st)
               \<or> (permissions st \<noteq> JStr ''teacher'' \<and> permissions st \<noteq> JStr ''student'')
            then fallback_routes else [])))"

section \<open>Notions the properties are stated with\<close>

text \<open>A failed request: \<open>fetch\<close> rejects, or resolves with a status outside 200 to 299.\<close>

definition failure :: "(string + 'n response) \<Rightarrow> bool" where
  "failure out = (case out of Inl e \<Rightarrow> True | Inr response \<Rightarrow> \<not> ok response)"

text \<open>
  A body with a numeric \<open>similarity\<close> field: a JSON object whose \<open>similarity\<close> property
  is a number.
\<close>

definition numeric_similarity :: "'n jsval \<Rightarrow> 'n option" where
  "numeric_similarity d =
     (case d of
        JObj kvs \<Rightarrow> (case map_of kvs ''similarity'' of Some (JNum n) \<Rightarrow> Some n | _ \<Rightarrow> None)
      | _ \<Rightarrow> None)"

text \<open>
  The similarity a request outcome confirms: the response is 2xx, its body parses as JSON
  and has a numeric \<open>similarity\<close> field.
\<close>

definition confirmed_similarity :: "(string + 'n response) \<Rightarrow> 'n option" where
  "confirmed_similarity out =
     (case out of
        Inl e \<Rightarrow> None
      | Inr response \<Rightarrow>
          if ok response then
            (case json_result response of Inl e \<Rightarrow> None | Inr d \<Rightarrow> numeric_similarity d)
          else None)"

text \<open>
  What a click added to the request log: nothing, or exactly one request at its end.
\<close>

definition no_request :: "'n page \<Rightarrow> 'n page \<Rightarrow> bool" where
  "no_request pg pg' = (requests pg' = requests pg)"

definition exactly_one_request :: "'n page \<Rightarrow> 'n page \<Rightarrow> bool" where
  "exactly_one_request pg pg' =
     (length (requests pg') = Suc (length (requests pg)) \<and> butlast (requests pg') = requests pg)"

definition at_most_one_request :: "'n page \<Rightarrow> 'n page \<Rightarrow> bool" where
  "at_most_one_request pg pg' = (no_request pg pg' \<or> exactly_one_request pg pg')"

text \<open>What a screen mounts, and which of the mounted entries are resources.\<close>

fun is_resource :: "mounted \<Rightarrow> bool" where
  "is_resource (Resource name l e c) = True"
| "is_resource (Route path element authenticated) = False"

fun mounted_under :: "screen \<Rightarrow> mounted list" where
  "mounted_under LoadingPermissions = []"
| "mounted_under (Admin ms) = ms"

text \<open>
  Three shapes of a response body: a JSON object whose \<open>detail\<close> is a non-empty string;
  a JSON object without a given property; a body that \<open>response.json()\<close> rejects, with
  the message of the rejection.
\<close>

definition detail_string :: "'n response \<Rightarrow> string option" where
  "detail_string response =
     (case json_result response of
        Inr (JObj kvs) \<Rightarrow>
          (case map_of kvs ''detail'' of
             Some (JStr d) \<Rightarrow> if d \<noteq> [] then Some d else None
           | _ \<Rightarrow> None)
      | _ \<Rightarrow> None)"

definition object_without :: "string \<Rightarrow> 'n response \<Rightarrow> bool" where
  "object_without p response =
     (case json_result response of Inr (JObj kvs) \<Rightarrow> map_of kvs p = None | _ \<Rightarrow> False)"

definition parse_error :: "'n response \<Rightarrow> string option" where
  "parse_error response = (case json_result response of Inl e \<Rightarrow> Some e | Inr v \<Rightarrow> None)"

section \<open>Sample inputs\<close>

text \<open>
  A browser for the concrete runs below. Its numbers are the naturals and \<open>NaN\<close>
  (\<open>None\<close>), on which \<open>String\<close> and \<open>toFixed(4)\<close> are exact; its \<open>TypeError\<close>
  messages are worded after V8's; \<open>parseInt\<close> is only ever applied to a number there.
  The token, the answer to every confirmation prompt and the outcome of every \<open>fetch\<close>
  are arguments.
\<close>

definition sample_browser ::
  "string option \<Rightarrow> bool \<Rightarrow> (string + nat option response) \<Rightarrow> nat option env" where
  \<open>sample_browser tok yes out =
     \<lparr>num_falsy = (\<lambda>n. n = None \<or> n = Some 0),
      num_to_string = (\<lambda>n. case n of None \<Rightarrow> ''NaN'' | Some k \<Rightarrow> dec k),
      num_to_fixed4 = (\<lambda>n. case n of None \<Rightarrow> ''NaN'' | Some k \<Rightarrow> dec k @ ''.0000''),
      parse_int = (\<lambda>v. case v of JNum n \<Rightarrow> n | _ \<Rightarrow> None),
      type_error_message = (\<lambda>v p.
         if v = JNull then ''Cannot read properties of null (reading '' @ p @ '')''
         else if v = JUndefined then ''Cannot read properties of undefined (reading '' @ p @ '')''
         else p @ '' is not a function''),
      api_url = None,
      token = tok,
      confirm = (\<lambda>q. yes),
      fetch = (\<lambda>req. out)\<rparr>\<close>

definition blank_page :: "'n page" where
  "blank_page =
     \<lparr>requests = [], notifications = [], refreshes = 0, prompts = [],
      inputs = Map.empty, console = []\<rparr>"

definition picture :: file_obj where
  "picture = \<lparr>file_name = ''face.png'', file_bytes = ''PNG''\<rparr>"

definition lesson7 :: "nat option ra_record" where
  "lesson7 = \<lparr>rec_id = JNum (Some 7)\<rparr>"

definition file3 :: "nat option ra_record" where
  "file3 = \<lparr>rec_id = JNum (Some 3)\<rparr>"

definition student12 :: "nat option enrollment" where
  "student12 = \<lparr>user_id = JNum (Some 12)\<rparr>"

text \<open>\<open>404 Not Found\<close> with a plain-text body, which \<open>response.json()\<close> rejects.\<close>

definition not_found :: "nat option response" where
  "not_found =
     \<lparr>status = 404,
      json_result = Inl ''Unexpected token N in JSON at position 0'',
      text_result = ''Not Found''\<rparr>"

text \<open>\<open>200\<close> with a similarity of 1.\<close>

definition similar1 :: "nat option response" where
  \<open>similar1 =
     \<lparr>status = 200,
      json_result = Inr (JObj [(''similarity'', JNum (Some 1))]),
      text_result = ''{"similarity":1}''\<rparr>\<close>

text \<open>\<open>200\<close> with the body \<open>{"message":"ok"}\<close>.\<close>

definition message_ok :: "nat option response" where
  \<open>message_ok =
     \<lparr>status = 200,
      json_result = Inr (JObj [(''message'', JStr ''ok'')]),
      text_result = ''{"message":"ok"}''\<rparr>\<close>

text \<open>\<open>400\<close> with the body \<open>{"detail":"bad input"}\<close>.\<close>

definition bad_input :: "nat option response" where
  \<open>bad_input =
     \<lparr>status = 400,
      json_result = Inr (JObj [(''detail'', JStr ''bad input'')]),
      text_result = ''{"detail":"bad input"}''\<rparr>\<close>

text \<open>The states of the four forms with their input chosen, and nothing in flight.\<close>

definition upload_chosen :: upload_state where
  "upload_chosen = \<lparr>file = Object picture, fileName = ''face.png''\<rparr>"

definition enroll_chosen :: "nat option enroll_state" where
  "enroll_chosen = \<lparr>studentId = JNum (Some 12)\<rparr>"

definition attendance_chosen :: attendance_state where
  "attendance_chosen =
     \<lparr>selectedFile = Object picture, isAttendanceLoading = False,
      attendanceServerMessage = [], attendanceServerMessageType = NInfo\<rparr>"

definition face_chosen :: "nat option face_state" where
  "face_chosen =
     \<lparr>face_selectedFile = Object picture, isLoading = False,
      serverMessage = JNull, serverMessageType = NInfo\<rparr>"

text \<open>The states of the four forms as they are first rendered, nothing chosen yet.\<close>

definition upload_idle :: upload_state where
  "upload_idle = \<lparr>file = Undef, fileName = []\<rparr>"

definition enroll_idle :: "nat option enroll_state" where
  "enroll_idle = \<lparr>studentId = JStr []\<rparr>"

definition attendance_idle :: attendance_state where
  "attendance_idle =
     \<lparr>selectedFile = Nul, isAttendanceLoading = False,
      attendanceServerMessage = [], attendanceServerMessageType = NInfo\<rparr>"

definition face_idle :: "nat option face_state" where
  "face_idle =
     \<lparr>face_selectedFile = Nul, isLoading = False,
      serverMessage = JNull, serverMessageType = NInfo\<rparr>"

text \<open>\<open>502 Bad Gateway\<close> with a plain-text body.\<close>

definition bad_gateway :: "nat option response" where
  "bad_gateway =
     \<lparr>status = 502,
      json_result = Inl ''Unexpected token B in JSON at position 0'',
      text_result = ''Bad Gateway''\<rparr>"

text \<open>\<open>401\<close> with the body \<open>{"detail":"Not authenticated"}\<close>.\<close>

definition unauthorized :: "nat option response" where
  \<open>unauthorized =
     \<lparr>status = 401,
      json_result = Inr (JObj [(''detail'', JStr ''Not authenticated'')]),
      text_result = ''{"detail":"Not authenticated"}''\<rparr>\<close>

text \<open>\<open>500\<close> with the body \<open>{"error":"boom"}\<close>.\<close>

definition no_detail :: "nat option response" where
  \<open>no_detail =
     \<lparr>status = 500,
      json_result = Inr (JObj [(''error'', JStr ''boom'')]),
      text_result = ''{"error":"boom"}''\<rparr>\<close>


section \<open>The required validator: property\<close>

text \<open>
  C8. The required validator passes (returns \<open>undefined\<close>) exactly on the truthy values,
  and on every falsy value it returns the error message: the default \<open>Required\<close> when the
  call passes no message, as both forms do, else the message passed.
\<close>

theorem required_fails_exactly_when_falsy:
  "(required rt message v = None \<longleftrightarrow> truthy rt v)
   \<and> (\<not> truthy rt v \<longrightarrow>
        required rt None v = Some ''Required'' \<and> required rt (Some m) v = Some m)"
  by (simp add: required_def)

theorem required_fails_exactly_when_falsy_witness:
  "\<not> truthy (sample_browser None True (Inr not_found)) (JStr [])
   \<and> required (sample_browser None True (Inr not_found)) None (JStr []) = Some ''Required''
   \<and> required (sample_browser None True (Inr not_found)) None (JStr ''Algebra'') = None"
  using required_fails_exactly_when_falsy
          [of "sample_browser None True (Inr not_found)" None "JStr []"]
        required_fails_exactly_when_falsy
          [of "sample_browser None True (Inr not_found)" None "JStr ''Algebra''"]
  by simp

section \<open>Basic facts about the page\<close>

lemma reset_input_fields [simp]:
  "requests (reset_input i pg) = requests pg"
  "notifications (reset_input i pg) = notifications pg"
  "refreshes (reset_input i pg) = refreshes pg"
  "prompts (reset_input i pg) = prompts pg"
  "console (reset_input i pg) = console pg"
  "inputs (reset_input i pg) j =
     (if j = i then map_option (\<lambda>v. []) (inputs pg i) else inputs pg j)"
  by (auto simp: reset_input_def split: option.splits)

lemma notify_fields [simp]:
  "requests (notify m l pg) = requests pg"
  "notifications (notify m l pg) = notifications pg @ [(m, l)]"
  "refreshes (notify m l pg) = refreshes pg"
  "prompts (notify m l pg) = prompts pg"
  "console (notify m l pg) = console pg"
  "inputs (notify m l pg) = inputs pg"
  by (simp_all add: notify_def)

lemma refresh_fields [simp]:
  "requests (refresh pg) = requests pg"
  "notifications (refresh pg) = notifications pg"
  "refreshes (refresh pg) = Suc (refreshes pg)"
  "prompts (refresh pg) = prompts pg"
  "console (refresh pg) = console pg"
  "inputs (refresh pg) = inputs pg"
  by (simp_all add: refresh_def)

lemma console_error_fields [simp]:
  "requests (console_error c m pg) = requests pg"
  "notifications (console_error c m pg) = notifications pg"
  "refreshes (console_error c m pg) = refreshes pg"
  "prompts (console_error c m pg) = prompts pg"
  "console (console_error c m pg) = console pg @ [(c, m)]"
  "inputs (console_error c m pg) = inputs pg"
  by (simp_all add: console_error_def)

lemmas handler_page_ops = send_def window_confirm_def

section \<open>Failure leaves the input in place\<close>

lemmas page_ops =
  notify_def refresh_def console_error_def send_def window_confirm_def reset_input_def

lemma failure_not_ok: "failure (fetch env req) \<Longrightarrow> fetch env req = Inr r \<Longrightarrow> \<not> ok r"
  by (simp add: failure_def)

lemma upload_failure:
  assumes "\<And>req. failure (fetch env req)"
  shows "fst (handleFileUpload env rec st pg) = st"
    and "inputs (snd (handleFileUpload env rec st pg)) = inputs pg"
  using failure_not_ok[OF assms]
  by (auto simp: handleFileUpload_def handleFileUpload_try_def page_ops Let_def
      split: js_opt.splits option.splits sum.splits prod.splits if_splits)

lemma enroll_failure:
  assumes "\<And>req. failure (fetch env req)"
  shows "fst (handleEnroll env rec st pg) = st"
  using failure_not_ok[OF assms]
  by (auto simp: handleEnroll_def handleEnroll_try_def page_ops Let_def
      split: option.splits sum.splits prod.splits if_splits)

lemma delete_inputs: "inputs (handleDelete env r pg) = inputs pg"
  by (auto simp: handleDelete_def handleDelete_try_def page_ops Let_def
      split: sum.splits prod.splits if_splits)

lemma unenroll_inputs: "inputs (unenroll_onClick env cl e pg) = inputs pg"
  by (auto simp: unenroll_onClick_def unenroll_try_def page_ops Let_def
      split: option.splits sum.splits prod.splits if_splits)

lemma register_failure:
  assumes "\<And>req. failure (fetch env req)"
  shows "face_selectedFile (fst (handleRegisterFace env st pg)) = face_selectedFile st"
    and "inputs (snd (handleRegisterFace env st pg)) = inputs pg"
  using failure_not_ok[OF assms]
  by (auto simp: handleRegisterFace_def handleRegisterFace_try_def page_ops Let_def
      split: js_opt.splits sum.splits prod.splits if_splits)

lemma mark_failure:
  assumes "\<And>req. failure (fetch env req)"
  shows "selectedFile (fst (handleMarkAttendance env lessonId st pg)) = selectedFile st"
    and "inputs (snd (handleMarkAttendance env lessonId st pg)) = inputs pg"
  using failure_not_ok[OF assms]
  by (auto simp: handleMarkAttendance_def handleMarkAttendance_try_def page_ops Let_def
      split: js_opt.splits sum.splits prod.splits if_splits)

text \<open>
  C5. When the request of a handler fails (\<open>fetch\<close> rejects, or the status is not 2xx), the
  transient input is as it was before the click: the upload form keeps its file and file
  name, the enroll form its student id, the face and attendance pages their selected file,
  and no handler resets a file picker.
\<close>

theorem failure_keeps_transient_input:
  assumes "\<And>req. failure (fetch env req)"
  shows "fst (handleFileUpload env rec us pg) = us
       \<and> inputs (snd (handleFileUpload env rec us pg)) = inputs pg
       \<and> fst (handleEnroll env rec es pg) = es
       \<and> face_selectedFile (fst (handleRegisterFace env fs pg)) = face_selectedFile fs
       \<and> inputs (snd (handleRegisterFace env fs pg)) = inputs pg
       \<and> selectedFile (fst (handleMarkAttendance env lessonId as pg)) = selectedFile as
       \<and> inputs (snd (handleMarkAttendance env lessonId as pg)) = inputs pg
       \<and> inputs (handleDelete env r pg) = inputs pg
       \<and> inputs (unenroll_onClick env currentLesson enrollmentRecord pg) = inputs pg"
  using assms
  by (simp add: upload_failure enroll_failure register_failure mark_failure
      delete_inputs unenroll_inputs)

theorem failure_keeps_transient_input_witness:
  "(\<forall>req. failure (fetch (sample_browser (Some ''s3cret'') True (Inr not_found)) req))
   \<and> fst (handleFileUpload (sample_browser (Some ''s3cret'') True (Inr not_found)) (Some lesson7)
            \<lparr>file = Object picture, fileName = ''face.png''\<rparr> blank_page)
       = \<lparr>file = Object picture, fileName = ''face.png''\<rparr>
   \<and> selectedFile (fst (handleMarkAttendance (sample_browser (Some ''s3cret'') True (Inr not_found))
            (JStr ''7'')
            \<lparr>selectedFile = Object picture, isAttendanceLoading = False,
             attendanceServerMessage = [], attendanceServerMessageType = NInfo\<rparr> blank_page))
       = Object picture"
proof -
  have h: "\<And>req. failure (fetch (sample_browser (Some ''s3cret'') True (Inr not_found)) req)"
    by (simp add: sample_browser_def not_found_def failure_def ok_def)
  show ?thesis
    using h
      failure_keeps_transient_input [OF h,
        where rec = "Some lesson7" and pg = blank_page
          and us = "\<lparr>file = Object picture, fileName = ''face.png''\<rparr>"
          and lessonId = "JStr ''7''"
          and as = "\<lparr>selectedFile = Object picture, isAttendanceLoading = False,
             attendanceServerMessage = [], attendanceServerMessageType = NInfo\<rparr>"]
    by simp
qed

section \<open>Mark attendance: success needs a similarity\<close>

lemma similarity_toFixed_Some:
  "numeric_similarity d = Some n \<Longrightarrow> similarity_toFixed rt d = Inr (num_to_fixed4 rt n)"
  by (cases d) (auto simp: numeric_similarity_def similarity_toFixed_def
      split: option.splits jsval.splits)

lemma similarity_toFixed_None:
  "numeric_similarity d = None \<Longrightarrow> \<exists>m. similarity_toFixed rt d = Inl m"
  by (cases d) (auto simp: numeric_similarity_def similarity_toFixed_def
      split: option.splits jsval.splits)

lemma mark_try_success:
  assumes "\<And>req. fetch env req = out" and "confirmed_similarity out = Some n"
  shows "handleMarkAttendance_try env lessonId f st pg =
     (Inr (),
      st\<lparr>attendanceServerMessage := ''Attendance confirmed! Similarity: '' @ num_to_fixed4 env n,
         attendanceServerMessageType := NSuccess, selectedFile := Nul\<rparr>,
      reset_input ''attendance-image-input''
        (notify (''Attendance confirmed! Similarity: '' @ num_to_fixed4 env n) NSuccess
           (pg\<lparr>requests := requests pg @
              [\<lparr>req_method = POST,
                req_url = api_base env @ ''/api/attendance/'' @ js_string env lessonId,
                req_headers = [(''Authorization'', bearer env)],
                req_body = FormData [(''file'', f)]\<rparr>]\<rparr>)))"
  using assms
  by (auto simp: handleMarkAttendance_try_def send_def confirmed_similarity_def Let_def
      similarity_toFixed_Some split: sum.splits if_splits)

lemma mark_try_error:
  assumes "\<And>req. fetch env req = out" and "confirmed_similarity out = None"
  shows "\<exists>m. handleMarkAttendance_try env lessonId f st pg =
     (Inl m, st,
      pg\<lparr>requests := requests pg @
              [\<lparr>req_method = POST,
                req_url = api_base env @ ''/api/attendance/'' @ js_string env lessonId,
                req_headers = [(''Authorization'', bearer env)],
                req_body = FormData [(''file'', f)]\<rparr>]\<rparr>)"
proof (cases out)
  case (Inl e)
  then show ?thesis using assms(1)
    by (simp add: handleMarkAttendance_try_def send_def)
next
  case (Inr response)
  show ?thesis
  proof (cases "json_result response")
    case (Inl e)
    then show ?thesis using assms(1) Inr
      by (simp add: handleMarkAttendance_try_def send_def)
  next
    case d: (Inr d)
    show ?thesis
    proof (cases "ok response")
      case True
      with assms(2) Inr d have "numeric_similarity d = None"
        by (simp add: confirmed_similarity_def)
      from similarity_toFixed_None[OF this, of env] obtain m
        where "similarity_toFixed env d = Inl m" ..
      then show ?thesis using assms(1) Inr d True
        by (simp add: handleMarkAttendance_try_def send_def)
    next
      case False
      then show ?thesis using assms(1) Inr d
        by (simp add: handleMarkAttendance_try_def send_def)
    qed
  qed
qed

text \<open>
  C10. Mark attendance, with a file selected, reports success exactly when the response is
  2xx and its body parses as JSON with a numeric \<open>similarity\<close> field; the message then
  carries that number formatted by \<open>toFixed(4)\<close>. Every other outcome (a rejected
  \<open>fetch\<close>, a status outside 2xx, a body that is not JSON, a body without a numeric
  \<open>similarity\<close>) goes through the error path. The loading flag is false afterwards in
  each case, and a click without a file leaves an idle flag idle.
\<close>

theorem mark_attendance_success_needs_similarity:
  assumes "\<And>req. fetch env req = out"
  shows "(\<not> isAttendanceLoading st \<longrightarrow>
            \<not> isAttendanceLoading (fst (handleMarkAttendance env lessonId st pg)))
       \<and> (selectedFile st = Object f \<longrightarrow>
            \<not> isAttendanceLoading (fst (handleMarkAttendance env lessonId st pg))
          \<and> (case confirmed_similarity out of
               Some n \<Rightarrow>
                 notifications (snd (handleMarkAttendance env lessonId st pg)) =
                   notifications pg @
                     [(''Attendance confirmed! Similarity: '' @ num_to_fixed4 env n, NSuccess)]
                 \<and> attendanceServerMessageType (fst (handleMarkAttendance env lessonId st pg))
                     = NSuccess
             | None \<Rightarrow>
                 (\<exists>m. notifications (snd (handleMarkAttendance env lessonId st pg)) =
                        notifications pg @ [(''Attendance Error: '' @ m, NError)])
                 \<and> attendanceServerMessageType (fst (handleMarkAttendance env lessonId st pg))
                     = NError))"
proof (intro conjI impI)
  show "\<not> isAttendanceLoading (fst (handleMarkAttendance env lessonId st pg))"
    if "\<not> isAttendanceLoading st"
    using that
    by (auto simp: handleMarkAttendance_def Let_def split: js_opt.splits prod.splits sum.splits)
next
  assume f: "selectedFile st = Object f"
  show "\<not> isAttendanceLoading (fst (handleMarkAttendance env lessonId st pg))"
    using f
    by (auto simp: handleMarkAttendance_def Let_def split: js_opt.splits prod.splits sum.splits)
  show "case confirmed_similarity out of
               Some n \<Rightarrow>
                 notifications (snd (handleMarkAttendance env lessonId st pg)) =
                   notifications pg @
                     [(''Attendance confirmed! Similarity: '' @ num_to_fixed4 env n, NSuccess)]
                 \<and> attendanceServerMessageType (fst (handleMarkAttendance env lessonId st pg))
                     = NSuccess
             | None \<Rightarrow>
                 (\<exists>m. notifications (snd (handleMarkAttendance env lessonId st pg)) =
                        notifications pg @ [(''Attendance Error: '' @ m, NError)])
                 \<and> attendanceServerMessageType (fst (handleMarkAttendance env lessonId st pg))
                     = NError"
  proof (cases "confirmed_similarity out")
    case None
    from mark_try_error[OF assms None] obtain m where
      "handleMarkAttendance_try env lessonId f
         (st\<lparr>isAttendanceLoading := True, attendanceServerMessage := []\<rparr>) pg =
       (Inl m, st\<lparr>isAttendanceLoading := True, attendanceServerMessage := []\<rparr>,
        pg\<lparr>requests := requests pg @
              [\<lparr>req_method = POST,
                req_url = api_base env @ ''/api/attendance/'' @ js_string env lessonId,
                req_headers = [(''Authorization'', bearer env)],
                req_body = FormData [(''file'', f)]\<rparr>]\<rparr>)"
      by blast
    then show ?thesis using None f
      by (simp add: handleMarkAttendance_def Let_def page_ops)
  next
    case (Some n)
    show ?thesis using Some f mark_try_success[OF assms Some]
      by (simp add: handleMarkAttendance_def Let_def page_ops split: option.splits)
  qed
qed


theorem mark_attendance_success_needs_similarity_witness:
  "(\<forall>req. fetch (sample_browser (Some ''s3cret'') True (Inr similar1)) req = (Inr similar1))
   \<and> selectedFile attendance_chosen = Object picture
   \<and> \<not> isAttendanceLoading (fst (handleMarkAttendance
           (sample_browser (Some ''s3cret'') True (Inr similar1)) (JStr ''7'')
           attendance_chosen blank_page))
   \<and> notifications (snd (handleMarkAttendance
           (sample_browser (Some ''s3cret'') True (Inr similar1)) (JStr ''7'')
           attendance_chosen blank_page))
       = [(''Attendance confirmed! Similarity: 1.0000'', NSuccess)]"
proof -
  have h: "\<And>req. fetch (sample_browser (Some ''s3cret'') True (Inr similar1)) req = (Inr similar1)"
    by (simp add: sample_browser_def)
  have c: "confirmed_similarity (Inr similar1) = Some (Some 1)"
    by (simp add: confirmed_similarity_def similar1_def ok_def numeric_similarity_def)
  have n: "num_to_fixed4 (sample_browser (Some ''s3cret'') True (Inr similar1)) (Some 1) = ''1.0000''"
    by (simp add: sample_browser_def dec.simps)
  show ?thesis
    using h mark_attendance_success_needs_similarity
              [OF h, of attendance_chosen "JStr ''7''" blank_page picture]
    by (simp add: c n attendance_chosen_def blank_page_def del: One_nat_def)
qed

section \<open>The destructive handlers ask first\<close>

text \<open>
  C9. Delete file and unenroll student send a request only after a confirmation prompt was
  shown and accepted. When the prompt is shown and declined the handler does nothing else:
  the page is as before but for the prompt itself, with no request, no notification and no
  refresh (these two handlers keep no state of their own).
\<close>

theorem destructive_handlers_need_confirmation:
  "(requests (handleDelete env r pg) \<noteq> requests pg \<longrightarrow>
      confirm env ''Are you sure you want to delete this file?''
      \<and> prompts (handleDelete env r pg)
          = prompts pg @ [''Are you sure you want to delete this file?''])
   \<and> (\<not> confirm env ''Are you sure you want to delete this file?'' \<longrightarrow>
        handleDelete env r pg
          = pg\<lparr>prompts := prompts pg @ [''Are you sure you want to delete this file?'']\<rparr>)
   \<and> (requests (unenroll_onClick env currentLesson enrollmentRecord pg) \<noteq> requests pg \<longrightarrow>
        confirm env (''Are you sure you want to unenroll student ID ''
                       @ js_string env (user_id enrollmentRecord) @ ''?'')
        \<and> prompts (unenroll_onClick env currentLesson enrollmentRecord pg)
            = prompts pg @ [''Are you sure you want to unenroll student ID ''
                              @ js_string env (user_id enrollmentRecord) @ ''?''])
   \<and> (prompts (unenroll_onClick env currentLesson enrollmentRecord pg) \<noteq> prompts pg
        \<and> \<not> confirm env (''Are you sure you want to unenroll student ID ''
                            @ js_string env (user_id enrollmentRecord) @ ''?'') \<longrightarrow>
        unenroll_onClick env currentLesson enrollmentRecord pg
          = pg\<lparr>prompts := prompts pg @ [''Are you sure you want to unenroll student ID ''
                                          @ js_string env (user_id enrollmentRecord) @ ''?'']\<rparr>)"
proof (intro conjI)
  show "requests (handleDelete env r pg) \<noteq> requests pg \<longrightarrow>
      confirm env ''Are you sure you want to delete this file?''
      \<and> prompts (handleDelete env r pg)
          = prompts pg @ [''Are you sure you want to delete this file?'']"
    by (auto simp: handleDelete_def handleDelete_try_def page_ops Let_def
        split: sum.splits prod.splits if_splits)
  show "\<not> confirm env ''Are you sure you want to delete this file?'' \<longrightarrow>
        handleDelete env r pg
          = pg\<lparr>prompts := prompts pg @ [''Are you sure you want to delete this file?'']\<rparr>"
    by (simp add: handleDelete_def page_ops)
  show "requests (unenroll_onClick env currentLesson enrollmentRecord pg) \<noteq> requests pg \<longrightarrow>
        confirm env (''Are you sure you want to unenroll student ID ''
                       @ js_string env (user_id enrollmentRecord) @ ''?'')
        \<and> prompts (unenroll_onClick env currentLesson enrollmentRecord pg)
            = prompts pg @ [''Are you sure you want to unenroll student ID ''
                              @ js_string env (user_id enrollmentRecord) @ ''?'']"
    by (auto simp: unenroll_onClick_def unenroll_try_def page_ops Let_def
        split: option.splits sum.splits prod.splits if_splits)
  show "prompts (unenroll_onClick env currentLesson enrollmentRecord pg) \<noteq> prompts pg
        \<and> \<not> confirm env (''Are you sure you want to unenroll student ID ''
                            @ js_string env (user_id enrollmentRecord) @ ''?'') \<longrightarrow>
        unenroll_onClick env currentLesson enrollmentRecord pg
          = pg\<lparr>prompts := prompts pg @ [''Are you sure you want to unenroll student ID ''
                                          @ js_string env (user_id enrollmentRecord) @ ''?'']\<rparr>"
    by (auto simp: unenroll_onClick_def page_ops Let_def split: option.splits)
qed

theorem destructive_handlers_need_confirmation_witness:
  "\<not> confirm (sample_browser (Some ''s3cret'') False (Inr message_ok))
        ''Are you sure you want to delete this file?''
   \<and> handleDelete (sample_browser (Some ''s3cret'') False (Inr message_ok)) file3 blank_page
       = blank_page\<lparr>prompts := [''Are you sure you want to delete this file?'']\<rparr>
   \<and> requests (handleDelete (sample_browser (Some ''s3cret'') True (Inr message_ok)) file3 blank_page)
       \<noteq> requests blank_page
   \<and> confirm (sample_browser (Some ''s3cret'') True (Inr message_ok))
        ''Are you sure you want to delete this file?''
   \<and> prompts (unenroll_onClick (sample_browser (Some ''s3cret'') False (Inr message_ok))
         (Some lesson7) student12 blank_page) \<noteq> prompts blank_page
   \<and> unenroll_onClick (sample_browser (Some ''s3cret'') False (Inr message_ok))
         (Some lesson7) student12 blank_page
       = blank_page\<lparr>prompts := [''Are you sure you want to unenroll student ID 12?'']\<rparr>"
proof -
  have d: "\<not> confirm (sample_browser (Some ''s3cret'') False (Inr message_ok)) q" for q
    by (simp add: sample_browser_def)
  have r: "requests (handleDelete (sample_browser (Some ''s3cret'') True (Inr message_ok)) file3
             blank_page) \<noteq> requests blank_page"
    by (simp add: handleDelete_def handleDelete_try_def page_ops sample_browser_def
        blank_page_def message_ok_def no_token_def ok_def)
  have p: "prompts (unenroll_onClick (sample_browser (Some ''s3cret'') False (Inr message_ok))
         (Some lesson7) student12 blank_page) \<noteq> prompts blank_page"
    by (simp add: unenroll_onClick_def page_ops sample_browser_def blank_page_def lesson7_def)
  have s: "js_string (sample_browser (Some ''s3cret'') False (Inr message_ok)) (user_id student12)
            = ''12''"
    by (simp add: sample_browser_def student12_def dec.simps)
  show ?thesis
    using d r p
      destructive_handlers_need_confirmation
        [of "sample_browser (Some ''s3cret'') False (Inr message_ok)" file3 blank_page
            "Some lesson7" student12]
      destructive_handlers_need_confirmation
        [of "sample_browser (Some ''s3cret'') True (Inr message_ok)" file3 blank_page
            "Some lesson7" student12]
    by (simp add: s blank_page_def)
qed

section \<open>The role router: properties\<close>

text \<open>
  The claim C7 as stated has the student role mount two routes. The student block holds
  four: the lesson list, the lesson view, the root path and the face registration page.
\<close>

theorem student_routes_counterexample:
  "mounted_under (App (sample_browser None True (Inr not_found))
       (App_effect (Resolves (JStr ''student'')) App_initial))
   = [Route ''/student/lessons'' StudentLessonList True,
      Route ''/student/lessons/:lessonId'' StudentLessonView True,
      Route ''/'' StudentLessonList True,
      Route ''/student/register-face'' FaceRegistrationPage True]
   \<and> length (mounted_under (App (sample_browser None True (Inr not_found))
       (App_effect (Resolves (JStr ''student'')) App_initial))) \<noteq> 2"
  by (simp add: App_def App_effect_def App_initial_def student_routes_def)

text \<open>
  C7, amended. Before the permissions are resolved \<open>App\<close> shows the loading screen.
  Afterwards it mounts exactly one of three pairwise disjoint sets: for \<open>teacher\<close> the six
  administrative resources and nothing else; for \<open>student\<close> the four student routes and
  nothing else; for every other resolved value and for a rejected \<open>getPermissions\<close> (the
  permissions are then \<open>null\<close>) the single fallback route \<open>/\<close> to the dashboard.
\<close>

theorem role_router_mounts_one_set:
  "App rt App_initial = LoadingPermissions
   \<and> App rt (App_effect (Resolves (JStr ''teacher'')) App_initial) = Admin teacher_resources
   \<and> App rt (App_effect (Resolves (JStr ''student'')) App_initial) = Admin student_routes
   \<and> App rt (App_effect Rejects App_initial) = Admin fallback_routes
   \<and> (perms \<noteq> JStr ''teacher'' \<and> perms \<noteq> JStr ''student'' \<longrightarrow>
        App rt (App_effect (Resolves perms) App_initial) = Admin fallback_routes)
   \<and> length teacher_resources = 6 \<and> (\<forall>m \<in> set teacher_resources. is_resource m)
   \<and> length student_routes = 4 \<and> (\<forall>m \<in> set student_routes. \<not> is_resource m)
   \<and> fallback_routes = [Route ''/'' Dashboard False]
   \<and> set teacher_resources \<inter> set student_routes = {}
   \<and> set teacher_resources \<inter> set fallback_routes = {}
   \<and> set student_routes \<inter> set fallback_routes = {}"
  by (simp add: App_def App_effect_def App_initial_def teacher_resources_def
      student_routes_def fallback_routes_def)

theorem role_router_mounts_one_set_witness:
  "JStr ''admin'' \<noteq> (JStr ''teacher'' :: nat option jsval)
   \<and> JStr ''admin'' \<noteq> (JStr ''student'' :: nat option jsval)
   \<and> App (sample_browser None True (Inr not_found))
         (App_effect (Resolves (JStr ''admin'')) App_initial)
       = Admin [Route ''/'' Dashboard False]
   \<and> is_resource (Resource ''users'' (Some UserList) (Some UserEdit) (Some UserCreate))
   \<and> \<not> is_resource (Route ''/student/lessons'' StudentLessonList True)"
  using role_router_mounts_one_set
          [of "sample_browser None True (Inr not_found)" "JStr ''admin''"]
  by (simp add: teacher_resources_def student_routes_def)

section \<open>One request per click\<close>

lemmas request_counts = no_request_def exactly_one_request_def at_most_one_request_def

lemma upload_requests:
  "at_most_one_request pg (snd (handleFileUpload env rec st pg))"
  "file st = Object f \<Longrightarrow> rec = Some r \<Longrightarrow> \<not> no_token env \<Longrightarrow>
     exactly_one_request pg (snd (handleFileUpload env rec st pg))"
  by (auto simp: handleFileUpload_def handleFileUpload_try_def handler_page_ops Let_def request_counts
      split: js_opt.splits option.splits sum.splits prod.splits if_splits)

lemma enroll_requests:
  "at_most_one_request pg (snd (handleEnroll env rec st pg))"
  "truthy env (studentId st) \<Longrightarrow> rec = Some r \<Longrightarrow> \<not> no_token env \<Longrightarrow>
     exactly_one_request pg (snd (handleEnroll env rec st pg))"
  by (auto simp: handleEnroll_def handleEnroll_try_def handler_page_ops Let_def request_counts
      split: option.splits sum.splits prod.splits if_splits)

lemma delete_requests:
  "at_most_one_request pg (handleDelete env r pg)"
  "confirm env ''Are you sure you want to delete this file?'' \<Longrightarrow> \<not> no_token env \<Longrightarrow>
     exactly_one_request pg (handleDelete env r pg)"
  by (auto simp: handleDelete_def handleDelete_try_def handler_page_ops Let_def request_counts
      split: sum.splits prod.splits if_splits)

lemma unenroll_requests:
  "at_most_one_request pg (unenroll_onClick env cl e pg)"
  "cl = Some l \<Longrightarrow> truthy env (rec_id l) \<Longrightarrow>
   confirm env (''Are you sure you want to unenroll student ID ''
                  @ js_string env (user_id e) @ ''?'') \<Longrightarrow> \<not> no_token env \<Longrightarrow>
     exactly_one_request pg (unenroll_onClick env cl e pg)"
  by (auto simp: unenroll_onClick_def unenroll_try_def handler_page_ops Let_def request_counts
      split: option.splits sum.splits prod.splits if_splits)

lemma register_requests:
  "at_most_one_request pg (snd (handleRegisterFace env st pg))"
  "face_selectedFile st = Object f \<Longrightarrow> \<not> no_token env \<Longrightarrow>
     exactly_one_request pg (snd (handleRegisterFace env st pg))"
  by (auto simp: handleRegisterFace_def handleRegisterFace_try_def handler_page_ops Let_def request_counts
      split: js_opt.splits sum.splits prod.splits if_splits)

lemma mark_requests:
  "at_most_one_request pg (snd (handleMarkAttendance env lessonId st pg))"
  "selectedFile st = Object f \<Longrightarrow>
     exactly_one_request pg (snd (handleMarkAttendance env lessonId st pg))"
  by (auto simp: handleMarkAttendance_def handleMarkAttendance_try_def handler_page_ops Let_def
      request_counts split: js_opt.splits sum.splits prod.splits if_splits)

text \<open>
  The claim C6 as stated promises exactly one request whenever payload and credential are
  present. The delete handler, given a file row and a stored token, sends none when the
  user declines the confirmation prompt.
\<close>

theorem declined_delete_counterexample:
  "file3 = \<lparr>rec_id = JNum (Some 3)\<rparr>
   \<and> \<not> no_token (sample_browser (Some ''s3cret'') False (Inr message_ok))
   \<and> requests (handleDelete (sample_browser (Some ''s3cret'') False (Inr message_ok)) file3
        blank_page) = []"
  by (simp add: handleDelete_def page_ops sample_browser_def blank_page_def no_token_def
      file3_def)

text \<open>
  C6, amended. Every click sends at most one request; nothing is retried. A click sends
  exactly one request when the credential is stored, the payload is present (a file, a
  student id; for upload, enroll and unenroll also the lesson record) and, for delete and
  unenroll, the user accepts the confirmation prompt.
\<close>

theorem one_request_per_click:
  "at_most_one_request pg (snd (handleFileUpload env rec us pg))
   \<and> at_most_one_request pg (snd (handleEnroll env rec es pg))
   \<and> at_most_one_request pg (handleDelete env r pg)
   \<and> at_most_one_request pg (unenroll_onClick env currentLesson enrollmentRecord pg)
   \<and> at_most_one_request pg (snd (handleRegisterFace env fs pg))
   \<and> at_most_one_request pg (snd (handleMarkAttendance env lessonId as pg))
   \<and> (\<not> no_token env \<longrightarrow>
        (file us = Object f \<and> rec = Some l \<longrightarrow>
           exactly_one_request pg (snd (handleFileUpload env rec us pg)))
      \<and> (truthy env (studentId es) \<and> rec = Some l \<longrightarrow>
           exactly_one_request pg (snd (handleEnroll env rec es pg)))
      \<and> (confirm env ''Are you sure you want to delete this file?'' \<longrightarrow>
           exactly_one_request pg (handleDelete env r pg))
      \<and> (currentLesson = Some l \<and> truthy env (rec_id l)
          \<and> confirm env (''Are you sure you want to unenroll student ID ''
                           @ js_string env (user_id enrollmentRecord) @ ''?'') \<longrightarrow>
           exactly_one_request pg (unenroll_onClick env currentLesson enrollmentRecord pg))
      \<and> (face_selectedFile fs = Object f \<longrightarrow>
           exactly_one_request pg (snd (handleRegisterFace env fs pg)))
      \<and> (selectedFile as = Object f \<longrightarrow>
           exactly_one_request pg (snd (handleMarkAttendance env lessonId as pg))))"
  by (simp add: upload_requests enroll_requests delete_requests unenroll_requests
      register_requests mark_requests)

theorem one_request_per_click_witness:
  "\<not> no_token (sample_browser (Some ''s3cret'') True (Inr similar1))
   \<and> file upload_chosen = Object picture
   \<and> truthy (sample_browser (Some ''s3cret'') True (Inr similar1)) (studentId enroll_chosen)
   \<and> confirm (sample_browser (Some ''s3cret'') True (Inr similar1))
        ''Are you sure you want to delete this file?''
   \<and> truthy (sample_browser (Some ''s3cret'') True (Inr similar1)) (rec_id lesson7)
   \<and> confirm (sample_browser (Some ''s3cret'') True (Inr similar1))
        (''Are you sure you want to unenroll student ID ''
           @ js_string (sample_browser (Some ''s3cret'') True (Inr similar1)) (user_id student12)
           @ ''?'')
   \<and> face_selectedFile face_chosen = Object picture
   \<and> selectedFile attendance_chosen = Object picture
   \<and> exactly_one_request blank_page
        (snd (handleFileUpload (sample_browser (Some ''s3cret'') True (Inr similar1))
           (Some lesson7) upload_chosen blank_page))
   \<and> exactly_one_request blank_page
        (snd (handleEnroll (sample_browser (Some ''s3cret'') True (Inr similar1))
           (Some lesson7) enroll_chosen blank_page))
   \<and> exactly_one_request blank_page
        (handleDelete (sample_browser (Some ''s3cret'') True (Inr similar1)) file3 blank_page)
   \<and> exactly_one_request blank_page
        (unenroll_onClick (sample_browser (Some ''s3cret'') True (Inr similar1))
           (Some lesson7) student12 blank_page)
   \<and> exactly_one_request blank_page
        (snd (handleRegisterFace (sample_browser (Some ''s3cret'') True (Inr similar1))
           face_chosen blank_page))
   \<and> exactly_one_request blank_page
        (snd (handleMarkAttendance (sample_browser (Some ''s3cret'') True (Inr similar1))
           (JStr ''7'') attendance_chosen blank_page))"
proof -
  have pre:
    "\<not> no_token (sample_browser (Some ''s3cret'') True (Inr similar1))"
    "file upload_chosen = Object picture"
    "truthy (sample_browser (Some ''s3cret'') True (Inr similar1)) (studentId enroll_chosen)"
    "confirm (sample_browser (Some ''s3cret'') True (Inr similar1)) q"
    "truthy (sample_browser (Some ''s3cret'') True (Inr similar1)) (rec_id lesson7)"
    "face_selectedFile face_chosen = Object picture"
    "selectedFile attendance_chosen = Object picture" for q
    by (simp_all add: sample_browser_def no_token_def upload_chosen_def enroll_chosen_def
        lesson7_def face_chosen_def attendance_chosen_def)
  show ?thesis
    using pre
      one_request_per_click
        [of blank_page "sample_browser (Some ''s3cret'') True (Inr similar1)" "Some lesson7"
            upload_chosen enroll_chosen file3 "Some lesson7" student12 face_chosen
            "JStr ''7''" attendance_chosen picture lesson7]
    by simp
qed

section \<open>Missing credential, missing payload\<close>

lemma upload_no_token:
  assumes "no_token env"
  shows "no_request pg (snd (handleFileUpload env rec st pg))"
    and "file st = Object f \<Longrightarrow> rec = Some l \<Longrightarrow>
         notifications (snd (handleFileUpload env rec st pg)) =
           notifications pg @ [(''Authentication token not found. Please log in.'', NWarning)]"
  using assms
  by (auto simp: handleFileUpload_def handleFileUpload_try_def no_request_def
      split: js_opt.splits option.splits)

lemma enroll_no_token:
  assumes "no_token env"
  shows "no_request pg (snd (handleEnroll env rec st pg))"
    and "truthy env (studentId st) \<Longrightarrow> rec = Some l \<Longrightarrow>
         notifications (snd (handleEnroll env rec st pg)) =
           notifications pg @ [(''Authentication token not found. Please log in.'', NWarning)]"
  using assms
  by (auto simp: handleEnroll_def handleEnroll_try_def no_request_def split: option.splits)

lemma delete_no_token:
  assumes "no_token env"
  shows "no_request pg (handleDelete env r pg)"
    and "confirm env ''Are you sure you want to delete this file?'' \<Longrightarrow>
         notifications (handleDelete env r pg) =
           notifications pg @ [(''Authentication token not found. Please log in.'', NWarning)]"
  using assms
  by (auto simp: handleDelete_def handleDelete_try_def no_request_def window_confirm_def)

lemma unenroll_no_token:
  assumes "no_token env"
  shows "no_request pg (unenroll_onClick env cl e pg)"
    and "cl = Some l \<Longrightarrow> truthy env (rec_id l) \<Longrightarrow>
         confirm env (''Are you sure you want to unenroll student ID ''
                        @ js_string env (user_id e) @ ''?'') \<Longrightarrow>
         notifications (unenroll_onClick env cl e pg) =
           notifications pg @ [(''Authentication token not found. Please log in.'', NWarning)]"
  using assms
  by (auto simp: unenroll_onClick_def unenroll_try_def no_request_def window_confirm_def
      split: option.splits)

lemma register_no_token:
  assumes "no_token env"
  shows "no_request pg (snd (handleRegisterFace env st pg))"
    and "face_selectedFile st = Object f \<Longrightarrow>
         notifications (snd (handleRegisterFace env st pg)) =
           notifications pg @ [(''Error: Authentication token not found.'', NError)]"
  using assms
  by (auto simp: handleRegisterFace_def handleRegisterFace_try_def no_request_def
      split: js_opt.splits)

text \<open>
  The claim C1 as stated fails in three ways. With nothing stored under \<open>token\<close>, mark
  attendance sends its request all the same, with the header \<open>Bearer null\<close>: it is the
  one handler without a check of the token. Register face sends nothing but reports the
  missing token through its \<open>catch\<close> block, as an error, not as a warning. And upload
  without a file returns at its first guard, before the token is looked at, so that
  nothing is shown.
\<close>

theorem missing_credential_counterexample:
  "no_token (sample_browser None True (Inr unauthorized))
   \<and> requests (snd (handleMarkAttendance (sample_browser None True (Inr unauthorized)) (JStr ''7'')
        attendance_chosen blank_page))
       = [\<lparr>req_method = POST,
           req_url = ''http://localhost:8000/api/attendance/7'',
           req_headers = [(''Authorization'', ''Bearer null'')],
           req_body = FormData [(''file'', picture)]\<rparr>]
   \<and> notifications (snd (handleRegisterFace (sample_browser None True (Inr unauthorized))
        face_chosen blank_page))
       = [(''Error: Authentication token not found.'', NError)]
   \<and> notifications (snd (handleFileUpload (sample_browser None True (Inr unauthorized))
        (Some lesson7) upload_idle blank_page)) = []"
proof (intro conjI)
  show "no_token (sample_browser None True (Inr unauthorized))"
    by (simp add: no_token_def sample_browser_def)
  show "requests (snd (handleMarkAttendance (sample_browser None True (Inr unauthorized)) (JStr ''7'')
        attendance_chosen blank_page))
       = [\<lparr>req_method = POST,
           req_url = ''http://localhost:8000/api/attendance/7'',
           req_headers = [(''Authorization'', ''Bearer null'')],
           req_body = FormData [(''file'', picture)]\<rparr>]"
    by (simp add: handleMarkAttendance_def handleMarkAttendance_try_def send_def
        sample_browser_def attendance_chosen_def blank_page_def api_base_def bearer_def
        unauthorized_def ok_def Let_def)
  show "notifications (snd (handleRegisterFace (sample_browser None True (Inr unauthorized))
        face_chosen blank_page))
       = [(''Error: Authentication token not found.'', NError)]"
    by (simp add: handleRegisterFace_def handleRegisterFace_try_def no_token_def
        sample_browser_def face_chosen_def blank_page_def Let_def)
  show "notifications (snd (handleFileUpload (sample_browser None True (Inr unauthorized))
        (Some lesson7) upload_idle blank_page)) = []"
    by (simp add: handleFileUpload_def upload_idle_def blank_page_def)
qed

text \<open>
  C1, amended. With no credential stored, upload, enroll, delete, unenroll and register
  face send no request. Once the earlier guards of the handler have passed (file or
  student and lesson record present; confirmation accepted), upload, enroll, delete and
  unenroll show the warning \<open>Authentication token not found. Please log in.\<close>, and
  register face, with a file selected, shows the error
  \<open>Error: Authentication token not found.\<close>
\<close>

theorem missing_credential_sends_nothing:
  assumes "no_token env"
  shows "no_request pg (snd (handleFileUpload env rec us pg))
       \<and> no_request pg (snd (handleEnroll env rec es pg))
       \<and> no_request pg (handleDelete env r pg)
       \<and> no_request pg (unenroll_onClick env currentLesson enrollmentRecord pg)
       \<and> no_request pg (snd (handleRegisterFace env fs pg))
       \<and> (file us = Object f \<and> rec = Some l \<longrightarrow>
            notifications (snd (handleFileUpload env rec us pg)) =
              notifications pg
                @ [(''Authentication token not found. Please log in.'', NWarning)])
       \<and> (truthy env (studentId es) \<and> rec = Some l \<longrightarrow>
            notifications (snd (handleEnroll env rec es pg)) =
              notifications pg
                @ [(''Authentication token not found. Please log in.'', NWarning)])
       \<and> (confirm env ''Are you sure you want to delete this file?'' \<longrightarrow>
            notifications (handleDelete env r pg) =
              notifications pg
                @ [(''Authentication token not found. Please log in.'', NWarning)])
       \<and> (currentLesson = Some l \<and> truthy env (rec_id l)
           \<and> confirm env (''Are you sure you want to unenroll student ID ''
                            @ js_string env (user_id enrollmentRecord) @ ''?'') \<longrightarrow>
            notifications (unenroll_onClick env currentLesson enrollmentRecord pg) =
              notifications pg
                @ [(''Authentication token not found. Please log in.'', NWarning)])
       \<and> (face_selectedFile fs = Object f \<longrightarrow>
            notifications (snd (handleRegisterFace env fs pg)) =
              notifications pg @ [(''Error: Authentication token not found.'', NError)])"
  using assms
  by (simp add: upload_no_token enroll_no_token delete_no_token unenroll_no_token
      register_no_token)

theorem missing_credential_sends_nothing_witness:
  "no_token (sample_browser None True (Inr unauthorized))
   \<and> file upload_chosen = Object picture
   \<and> truthy (sample_browser None True (Inr unauthorized)) (studentId enroll_chosen)
   \<and> confirm (sample_browser None True (Inr unauthorized))
        ''Are you sure you want to delete this file?''
   \<and> truthy (sample_browser None True (Inr unauthorized)) (rec_id lesson7)
   \<and> confirm (sample_browser None True (Inr unauthorized))
        (''Are you sure you want to unenroll student ID ''
           @ js_string (sample_browser None True (Inr unauthorized)) (user_id student12) @ ''?'')
   \<and> face_selectedFile face_chosen = Object picture
   \<and> no_request blank_page
        (snd (handleFileUpload (sample_browser None True (Inr unauthorized)) (Some lesson7)
           upload_chosen blank_page))
   \<and> notifications (snd (handleFileUpload (sample_browser None True (Inr unauthorized)) (Some lesson7)
           upload_chosen blank_page))
       = [(''Authentication token not found. Please log in.'', NWarning)]
   \<and> notifications (snd (handleEnroll (sample_browser None True (Inr unauthorized)) (Some lesson7)
           enroll_chosen blank_page))
       = [(''Authentication token not found. Please log in.'', NWarning)]
   \<and> notifications (handleDelete (sample_browser None True (Inr unauthorized)) file3 blank_page)
       = [(''Authentication token not found. Please log in.'', NWarning)]
   \<and> notifications (unenroll_onClick (sample_browser None True (Inr unauthorized)) (Some lesson7)
           student12 blank_page)
       = [(''Authentication token not found. Please log in.'', NWarning)]
   \<and> notifications (snd (handleRegisterFace (sample_browser None True (Inr unauthorized))
           face_chosen blank_page))
       = [(''Error: Authentication token not found.'', NError)]"
proof -
  have pre:
    "no_token (sample_browser None True (Inr unauthorized))"
    "file upload_chosen = Object picture"
    "truthy (sample_browser None True (Inr unauthorized)) (studentId enroll_chosen)"
    "confirm (sample_browser None True (Inr unauthorized)) q"
    "truthy (sample_browser None True (Inr unauthorized)) (rec_id lesson7)"
    "face_selectedFile face_chosen = Object picture" for q
    by (simp_all add: sample_browser_def no_token_def upload_chosen_def enroll_chosen_def
        lesson7_def face_chosen_def)
  have b: "notifications (blank_page :: nat option page) = []"
    by (simp add: blank_page_def)
  show ?thesis
    using pre
      missing_credential_sends_nothing
        [OF pre(1), of blank_page "Some lesson7" upload_chosen enroll_chosen file3
           "Some lesson7" student12 face_chosen picture lesson7]
    by (simp add: b)
qed

text \<open>
  The claim C2 as stated has every handler warn about a missing payload. Upload with no
  file chosen returns at once: the state and the page are what they were, and no
  notification is shown.
\<close>

theorem silent_upload_counterexample:
  "file upload_idle = Undef
   \<and> handleFileUpload (sample_browser (Some ''s3cret'') True (Inr message_ok)) (Some lesson7)
        upload_idle blank_page = (upload_idle, blank_page)
   \<and> notifications (blank_page :: nat option page) = []"
  by (simp add: handleFileUpload_def upload_idle_def blank_page_def)

text \<open>
  C2, amended. Without a payload no handler sends a request. Register face and mark
  attendance without a selected file show a warning, and so does unenroll without a lesson
  context. Upload without a file or lesson record and enroll without a student or lesson
  record return silently, with state and page unchanged.
\<close>

theorem missing_payload_sends_nothing:
  "(file us = Undef \<or> file us = Nul \<or> rec = None \<longrightarrow>
      handleFileUpload env rec us pg = (us, pg))
   \<and> (\<not> truthy env (studentId es) \<or> rec = None \<longrightarrow>
        handleEnroll env rec es pg = (es, pg))
   \<and> (face_selectedFile fs = Undef \<or> face_selectedFile fs = Nul \<longrightarrow>
        no_request pg (snd (handleRegisterFace env fs pg))
        \<and> notifications (snd (handleRegisterFace env fs pg)) =
            notifications pg @ [(''Please select an image file first.'', NWarning)])
   \<and> (selectedFile as = Undef \<or> selectedFile as = Nul \<longrightarrow>
        no_request pg (snd (handleMarkAttendance env lessonId as pg))
        \<and> notifications (snd (handleMarkAttendance env lessonId as pg)) =
            notifications pg
              @ [(''Please select a file to simulate camera capture.'', NWarning)])
   \<and> (currentLesson = None \<or> (\<exists>l. currentLesson = Some l \<and> \<not> truthy env (rec_id l)) \<longrightarrow>
        unenroll_onClick env currentLesson enrollmentRecord pg =
          notify ''Lesson context not found.'' NWarning pg)"
  by (auto simp: handleFileUpload_def handleEnroll_def handleRegisterFace_def
      handleMarkAttendance_def unenroll_onClick_def no_request_def
      split: js_opt.splits option.splits)

theorem missing_payload_sends_nothing_witness:
  "file upload_idle = Undef
   \<and> \<not> truthy (sample_browser (Some ''s3cret'') True (Inr message_ok)) (studentId enroll_idle)
   \<and> face_selectedFile face_idle = Nul
   \<and> selectedFile attendance_idle = Nul
   \<and> handleFileUpload (sample_browser (Some ''s3cret'') True (Inr message_ok)) (Some lesson7)
        upload_idle blank_page = (upload_idle, blank_page)
   \<and> handleEnroll (sample_browser (Some ''s3cret'') True (Inr message_ok)) (Some lesson7)
        enroll_idle blank_page = (enroll_idle, blank_page)
   \<and> notifications (snd (handleRegisterFace (sample_browser (Some ''s3cret'') True (Inr message_ok))
        face_idle blank_page))
       = [(''Please select an image file first.'', NWarning)]
   \<and> notifications (snd (handleMarkAttendance
        (sample_browser (Some ''s3cret'') True (Inr message_ok)) (JStr ''7'')
        attendance_idle blank_page))
       = [(''Please select a file to simulate camera capture.'', NWarning)]
   \<and> unenroll_onClick (sample_browser (Some ''s3cret'') True (Inr message_ok)) None student12
        blank_page
       = notify ''Lesson context not found.'' NWarning blank_page"
proof -
  have pre:
    "file upload_idle = Undef"
    "\<not> truthy (sample_browser (Some ''s3cret'') True (Inr message_ok)) (studentId enroll_idle)"
    "face_selectedFile face_idle = Nul"
    "selectedFile attendance_idle = Nul"
    by (simp_all add: upload_idle_def enroll_idle_def face_idle_def attendance_idle_def)
  have b: "notifications (blank_page :: nat option page) = []"
    by (simp add: blank_page_def)
  show ?thesis
    using pre
      missing_payload_sends_nothing
        [of upload_idle "Some lesson7" "sample_browser (Some ''s3cret'') True (Inr message_ok)"
            blank_page enroll_idle face_idle attendance_idle "JStr ''7''" None student12]
    by (simp add: b)
qed

section \<open>Error responses\<close>

lemma thrown_detail_string:
  "detail_string response = Some d \<Longrightarrow>
     \<exists>v. json_result response = Inr v \<and> (\<forall>dflt. thrown_detail rt v dflt = d)"
  by (auto simp: detail_string_def thrown_detail_def or_else_def
      split: sum.splits jsval.splits option.splits if_splits)

lemma thrown_detail_json_or:
  "detail_string response = Some d \<Longrightarrow> thrown_detail rt (json_or response v) dflt = d"
  using thrown_detail_string[of response d rt] by (auto simp: json_or_def)

lemma thrown_detail_without:
  "object_without ''detail'' response \<Longrightarrow>
     \<exists>v. json_result response = Inr v \<and> (\<forall>dflt. thrown_detail rt v dflt = dflt)"
  by (auto simp: object_without_def thrown_detail_def or_else_def
      split: sum.splits jsval.splits)

lemma thrown_detail_fallback:
  "object_without ''detail'' response \<or> parse_error response \<noteq> None \<Longrightarrow>
     thrown_detail rt (json_or response (JObj [(''detail'', JStr dflt)])) dflt = dflt"
  by (auto simp: object_without_def parse_error_def thrown_detail_def or_else_def json_or_def
      split: sum.splits jsval.splits)

lemma str_or_self [simp]: "str_or m m = m"
  by (simp add: str_or_def)

lemma str_or_nonempty [simp]: "m \<noteq> [] \<Longrightarrow> str_or m d = m"
  by (simp add: str_or_def)

lemma upload_not_ok:
  assumes "\<And>req. fetch env req = Inr response" "\<not> ok response" "\<not> no_token env"
    "file st = Object f" "rec = Some l"
  shows "notifications (snd (handleFileUpload env rec st pg)) =
     notifications pg @
       [(''Error: '' @ str_or (thrown_detail env
            (json_or response (JObj [(''detail'', JStr ''File upload failed'')]))
            ''File upload failed'') ''File upload failed'', NWarning)]"
  using assms
  by (simp add: handleFileUpload_def handleFileUpload_try_def send_def)

lemma enroll_not_ok:
  assumes "\<And>req. fetch env req = Inr response" "\<not> ok response" "\<not> no_token env"
    "truthy env (studentId st)" "rec = Some l"
  shows "notifications (snd (handleEnroll env rec st pg)) =
     notifications pg @
       [(''Error: '' @ str_or (thrown_detail env
            (json_or response (JObj [(''detail'', JStr ''Enrollment failed'')]))
            ''Enrollment failed'') ''Enrollment failed'', NWarning)]"
  using assms
  by (simp add: handleEnroll_def handleEnroll_try_def send_def)

lemma unenroll_not_ok:
  assumes "\<And>req. fetch env req = Inr response" "\<not> ok response" "\<not> no_token env"
    "cl = Some l" "truthy env (rec_id l)"
    "confirm env (''Are you sure you want to unenroll student ID ''
                    @ js_string env (user_id e) @ ''?'')"
  shows "notifications (unenroll_onClick env cl e pg) =
     notifications pg @
       [(''Error: '' @ str_or (thrown_detail env
            (json_or response (JObj [(''detail'', JStr ''Unenrollment failed'')]))
            ''Unenrollment failed'') ''Unenrollment failed'', NWarning)]"
  using assms
  by (simp add: unenroll_onClick_def unenroll_try_def send_def window_confirm_def)

lemma delete_not_ok:
  assumes "\<And>req. fetch env req = Inr response" "\<not> ok response" "\<not> no_token env"
    "confirm env ''Are you sure you want to delete this file?''"
  shows "notifications (handleDelete env r pg) =
     notifications pg @
       [(''Error: Failed to delete file. Status: '' @ dec (status response)
           @ '', Message: '' @ text_result response, NWarning)]"
  using assms
  by (simp add: handleDelete_def handleDelete_try_def send_def window_confirm_def str_or_def)

lemma register_not_ok:
  assumes "\<And>req. fetch env req = Inr response" "\<not> ok response" "\<not> no_token env"
    "face_selectedFile st = Object f" "json_result response = Inr v"
  shows "notifications (snd (handleRegisterFace env st pg)) =
     notifications pg @
       [(''Error: '' @ thrown_detail env v (''HTTP error! status: '' @ dec (status response)),
         NError)]"
  using assms
  by (simp add: handleRegisterFace_def handleRegisterFace_try_def send_def)

lemma register_unparsable:
  assumes "\<And>req. fetch env req = Inr response" "\<not> no_token env"
    "face_selectedFile st = Object f" "json_result response = Inl e"
  shows "notifications (snd (handleRegisterFace env st pg)) =
     notifications pg @ [(''Error: '' @ e, NError)]"
  using assms
  by (simp add: handleRegisterFace_def handleRegisterFace_try_def send_def)

lemma mark_not_ok:
  assumes "\<And>req. fetch env req = Inr response" "\<not> ok response"
    "selectedFile st = Object f" "json_result response = Inr v"
  shows "notifications (snd (handleMarkAttendance env lessonId st pg)) =
     notifications pg @
       [(''Attendance Error: '' @ str_or
            (thrown_detail env v (''HTTP error! Status: '' @ dec (status response)))
            ''An unknown error occurred.'', NError)]"
  using assms
  by (simp add: handleMarkAttendance_def handleMarkAttendance_try_def send_def Let_def)

lemma mark_unparsable:
  assumes "\<And>req. fetch env req = Inr response"
    "selectedFile st = Object f" "json_result response = Inl e"
  shows "notifications (snd (handleMarkAttendance env lessonId st pg)) =
     notifications pg @
       [(''Attendance Error: '' @ str_or e ''An unknown error occurred.'', NError)]"
  using assms
  by (simp add: handleMarkAttendance_def handleMarkAttendance_try_def send_def Let_def)


text \<open>
  The claim C3 as stated has every handler fall back to a fixed generic message when the
  error body is not JSON. Delete never parses the body: its message carries the status and
  the raw text, so two plain-text error pages give two different notifications.
\<close>

theorem error_responses_counterexample:
  "notifications (handleDelete (sample_browser (Some ''s3cret'') True (Inr not_found)) file3
       blank_page)
     = [(''Error: Failed to delete file. Status: 404, Message: Not Found'', NWarning)]
   \<and> notifications (handleDelete (sample_browser (Some ''s3cret'') True (Inr bad_gateway)) file3
       blank_page)
     = [(''Error: Failed to delete file. Status: 502, Message: Bad Gateway'', NWarning)]"
proof (intro conjI)
  show "notifications (handleDelete (sample_browser (Some ''s3cret'') True (Inr not_found)) file3
       blank_page)
     = [(''Error: Failed to delete file. Status: 404, Message: Not Found'', NWarning)]"
    by (simp add: handleDelete_def handleDelete_try_def send_def window_confirm_def
        sample_browser_def no_token_def not_found_def ok_def blank_page_def dec.simps)
  show "notifications (handleDelete (sample_browser (Some ''s3cret'') True (Inr bad_gateway)) file3
       blank_page)
     = [(''Error: Failed to delete file. Status: 502, Message: Bad Gateway'', NWarning)]"
    by (simp add: handleDelete_def handleDelete_try_def send_def window_confirm_def
        sample_browser_def no_token_def bad_gateway_def ok_def blank_page_def dec.simps)
qed

text \<open>
  C3, amended. On a response outside 2xx no handler throws, and the notification is as
  follows. With the credential stored and their guards passed: upload, enroll and unenroll
  warn with \<open>Error: \<close> and the \<open>detail\<close> of a JSON object body when that is a
  non-empty string, and with \<open>Error: \<close> and their fixed message when the body is not JSON
  or is an object without \<open>detail\<close>; register face reports the error \<open>Error: \<close> with
  the same \<open>detail\<close>, and for an object without \<open>detail\<close> with
  \<open>HTTP error! status: \<close> and the status code; delete warns with the status and the raw
  body text. Mark attendance, with a file selected and whether or not a credential is
  stored, reports the error \<open>Attendance Error: \<close> with the same \<open>detail\<close>, and for an
  object without \<open>detail\<close> with \<open>HTTP error! Status: \<close> (capital S) and the status
  code.
\<close>

theorem error_responses_are_reported:
  assumes "\<And>req. fetch env req = Inr response" and "\<not> ok response"
  shows
    "(\<not> no_token env \<and> file us = Object f \<and> rec = Some l \<longrightarrow>
        (detail_string response = Some d \<longrightarrow>
           notifications (snd (handleFileUpload env rec us pg)) =
             notifications pg @ [(''Error: '' @ d, NWarning)])
      \<and> (object_without ''detail'' response \<or> parse_error response \<noteq> None \<longrightarrow>
           notifications (snd (handleFileUpload env rec us pg)) =
             notifications pg @ [(''Error: File upload failed'', NWarning)]))
   \<and> (\<not> no_token env \<and> truthy env (studentId es) \<and> rec = Some l \<longrightarrow>
        (detail_string response = Some d \<longrightarrow>
           notifications (snd (handleEnroll env rec es pg)) =
             notifications pg @ [(''Error: '' @ d, NWarning)])
      \<and> (object_without ''detail'' response \<or> parse_error response \<noteq> None \<longrightarrow>
           notifications (snd (handleEnroll env rec es pg)) =
             notifications pg @ [(''Error: Enrollment failed'', NWarning)]))
   \<and> (\<not> no_token env \<and> currentLesson = Some l \<and> truthy env (rec_id l)
       \<and> confirm env (''Are you sure you want to unenroll student ID ''
                        @ js_string env (user_id enrollmentRecord) @ ''?'') \<longrightarrow>
        (detail_string response = Some d \<longrightarrow>
           notifications (unenroll_onClick env currentLesson enrollmentRecord pg) =
             notifications pg @ [(''Error: '' @ d, NWarning)])
      \<and> (object_without ''detail'' response \<or> parse_error response \<noteq> None \<longrightarrow>
           notifications (unenroll_onClick env currentLesson enrollmentRecord pg) =
             notifications pg @ [(''Error: Unenrollment failed'', NWarning)]))
   \<and> (\<not> no_token env \<and> face_selectedFile fs = Object f \<longrightarrow>
        (detail_string response = Some d \<longrightarrow>
           notifications (snd (handleRegisterFace env fs pg)) =
             notifications pg @ [(''Error: '' @ d, NError)])
      \<and> (object_without ''detail'' response \<longrightarrow>
           notifications (snd (handleRegisterFace env fs pg)) =
             notifications pg
               @ [(''Error: HTTP error! status: '' @ dec (status response), NError)]))
   \<and> (selectedFile as = Object f \<longrightarrow>
        (detail_string response = Some d \<longrightarrow>
           notifications (snd (handleMarkAttendance env lessonId as pg)) =
             notifications pg @ [(''Attendance Error: '' @ d, NError)])
      \<and> (object_without ''detail'' response \<longrightarrow>
           notifications (snd (handleMarkAttendance env lessonId as pg)) =
             notifications pg
               @ [(''Attendance Error: HTTP error! Status: '' @ dec (status response),
                   NError)]))
   \<and> (\<not> no_token env \<and> confirm env ''Are you sure you want to delete this file?'' \<longrightarrow>
        notifications (handleDelete env r pg) =
          notifications pg @
            [(''Error: Failed to delete file. Status: '' @ dec (status response)
                @ '', Message: '' @ text_result response, NWarning)])"
proof (intro conjI impI; (elim conjE)?)
  have nonempty: "detail_string response = Some d \<Longrightarrow> d \<noteq> []"
    by (auto simp: detail_string_def split: sum.splits jsval.splits option.splits if_splits)
  {
    assume t: "\<not> no_token env" and p: "file us = Object f" "rec = Some l"
    note a = assms t
    show "notifications (snd (handleFileUpload env rec us pg)) =
        notifications pg @ [(''Error: '' @ d, NWarning)]"
      if "detail_string response = Some d"
      using that nonempty by (simp add: upload_not_ok[OF a p] thrown_detail_json_or)
    show "notifications (snd (handleFileUpload env rec us pg)) =
        notifications pg @ [(''Error: File upload failed'', NWarning)]"
      if "object_without ''detail'' response \<or> parse_error response \<noteq> None"
      using that by (simp add: upload_not_ok[OF a p] thrown_detail_fallback)
  }
  {
    assume t: "\<not> no_token env" and p: "truthy env (studentId es)" "rec = Some l"
    note a = assms t
    show "notifications (snd (handleEnroll env rec es pg)) =
        notifications pg @ [(''Error: '' @ d, NWarning)]"
      if "detail_string response = Some d"
      using that nonempty by (simp add: enroll_not_ok[OF a p] thrown_detail_json_or)
    show "notifications (snd (handleEnroll env rec es pg)) =
        notifications pg @ [(''Error: Enrollment failed'', NWarning)]"
      if "object_without ''detail'' response \<or> parse_error response \<noteq> None"
      using that by (simp add: enroll_not_ok[OF a p] thrown_detail_fallback)
  }
  {
    assume t: "\<not> no_token env" and p: "currentLesson = Some l" "truthy env (rec_id l)"
      "confirm env (''Are you sure you want to unenroll student ID ''
                      @ js_string env (user_id enrollmentRecord) @ ''?'')"
    note a = assms t
    show "notifications (unenroll_onClick env currentLesson enrollmentRecord pg) =
        notifications pg @ [(''Error: '' @ d, NWarning)]"
      if "detail_string response = Some d"
      using that nonempty by (simp add: unenroll_not_ok[OF a p] thrown_detail_json_or)
    show "notifications (unenroll_onClick env currentLesson enrollmentRecord pg) =
        notifications pg @ [(''Error: Unenrollment failed'', NWarning)]"
      if "object_without ''detail'' response \<or> parse_error response \<noteq> None"
      using that by (simp add: unenroll_not_ok[OF a p] thrown_detail_fallback)
  }
  {
    assume t: "\<not> no_token env" and p: "face_selectedFile fs = Object f"
    note a = assms t
    show "notifications (snd (handleRegisterFace env fs pg)) =
        notifications pg @ [(''Error: '' @ d, NError)]"
      if "detail_string response = Some d"
      using thrown_detail_string[OF that, of env]
      by (auto simp: register_not_ok[OF a p])
    show "notifications (snd (handleRegisterFace env fs pg)) =
        notifications pg @ [(''Error: HTTP error! status: '' @ dec (status response), NError)]"
      if "object_without ''detail'' response"
      using thrown_detail_without[OF that, of env]
      by (auto simp: register_not_ok[OF a p])
  }
  {
    assume p: "selectedFile as = Object f"
    note a = assms
    show "notifications (snd (handleMarkAttendance env lessonId as pg)) =
        notifications pg @ [(''Attendance Error: '' @ d, NError)]"
      if "detail_string response = Some d"
      using thrown_detail_string[OF that, of env] nonempty[OF that]
      by (auto simp: mark_not_ok[OF a(1,2) p])
    show "notifications (snd (handleMarkAttendance env lessonId as pg)) =
        notifications pg
          @ [(''Attendance Error: HTTP error! Status: '' @ dec (status response), NError)]"
      if "object_without ''detail'' response"
      using thrown_detail_without[OF that, of env]
      by (auto simp: mark_not_ok[OF a(1,2) p])
  }
  show "notifications (handleDelete env r pg) =
      notifications pg @
        [(''Error: Failed to delete file. Status: '' @ dec (status response)
            @ '', Message: '' @ text_result response, NWarning)]"
    if "\<not> no_token env" and "confirm env ''Are you sure you want to delete this file?''"
    using that by (simp add: delete_not_ok[OF assms])
qed


theorem error_responses_are_reported_witness:
  "\<not> ok bad_input \<and> detail_string bad_input = Some ''bad input''
   \<and> notifications (snd (handleFileUpload
         (sample_browser (Some ''s3cret'') True (Inr bad_input)) (Some lesson7)
         upload_chosen blank_page))
       = [(''Error: bad input'', NWarning)]
   \<and> notifications (snd (handleMarkAttendance
         (sample_browser (Some ''s3cret'') True (Inr bad_input)) (JStr ''7'')
         attendance_chosen blank_page))
       = [(''Attendance Error: bad input'', NError)]
   \<and> \<not> ok no_detail \<and> object_without ''detail'' no_detail
   \<and> notifications (snd (handleEnroll
         (sample_browser (Some ''s3cret'') True (Inr no_detail)) (Some lesson7)
         enroll_chosen blank_page))
       = [(''Error: Enrollment failed'', NWarning)]
   \<and> notifications (snd (handleRegisterFace
         (sample_browser (Some ''s3cret'') True (Inr no_detail)) face_chosen blank_page))
       = [(''Error: HTTP error! status: 500'', NError)]
   \<and> notifications (snd (handleMarkAttendance
         (sample_browser (Some ''s3cret'') True (Inr no_detail)) (JStr ''7'')
         attendance_chosen blank_page))
       = [(''Attendance Error: HTTP error! Status: 500'', NError)]
   \<and> \<not> ok unauthorized \<and> detail_string unauthorized = Some ''Not authenticated''
   \<and> no_token (sample_browser None True (Inr unauthorized))
   \<and> notifications (snd (handleMarkAttendance
         (sample_browser None True (Inr unauthorized)) (JStr ''7'')
         attendance_chosen blank_page))
       = [(''Attendance Error: Not authenticated'', NError)]
   \<and> \<not> ok not_found
   \<and> parse_error not_found = Some ''Unexpected token N in JSON at position 0''
   \<and> notifications (unenroll_onClick
         (sample_browser (Some ''s3cret'') True (Inr not_found)) (Some lesson7) student12
         blank_page)
       = [(''Error: Unenrollment failed'', NWarning)]
   \<and> notifications (handleDelete
         (sample_browser (Some ''s3cret'') True (Inr not_found)) file3 blank_page)
       = [(''Error: Failed to delete file. Status: 404, Message: Not Found'', NWarning)]"
proof -
  have net: "fetch (sample_browser (Some ''s3cret'') True (Inr response)) req = Inr response"
    for response req
    by (simp add: sample_browser_def)
  have tok: "\<not> no_token (sample_browser (Some ''s3cret'') True out)" for out
    by (simp add: sample_browser_def no_token_def)
  have net0: "fetch (sample_browser None True (Inr response)) req = Inr response"
    for response req
    by (simp add: sample_browser_def)
  have tok0: "no_token (sample_browser None True out)" for out
    by (simp add: sample_browser_def no_token_def)
  have refused: "\<not> ok bad_input" "\<not> ok no_detail" "\<not> ok not_found"
    "\<not> ok unauthorized"
    by (simp_all add: ok_def bad_input_def no_detail_def not_found_def unauthorized_def)
  have bodies:
    "detail_string bad_input = Some ''bad input''"
    "object_without ''detail'' no_detail"
    "parse_error not_found = Some ''Unexpected token N in JSON at position 0''"
    "detail_string unauthorized = Some ''Not authenticated''"
    by (simp_all add: detail_string_def object_without_def parse_error_def bad_input_def
        no_detail_def not_found_def unauthorized_def)
  have pre:
    "file upload_chosen = Object picture"
    "truthy (sample_browser (Some ''s3cret'') True out) (studentId enroll_chosen)"
    "truthy (sample_browser (Some ''s3cret'') True out) (rec_id lesson7)"
    "confirm (sample_browser (Some ''s3cret'') True out) q"
    "face_selectedFile face_chosen = Object picture"
    "selectedFile attendance_chosen = Object picture" for out q
    by (simp_all add: sample_browser_def upload_chosen_def enroll_chosen_def lesson7_def
        face_chosen_def attendance_chosen_def)
  have codes: "dec (status no_detail) = ''500''" "dec (status not_found) = ''404''"
    "text_result not_found = ''Not Found''"
    by (simp_all add: no_detail_def not_found_def dec.simps)
  have b: "notifications (blank_page :: nat option page) = []"
    by (simp add: blank_page_def)
  show ?thesis
    using refused bodies tok0 [of "Inr unauthorized"]
      error_responses_are_reported [OF net refused(1),
        where rec = "Some lesson7" and l = lesson7 and f = picture and pg = blank_page
          and us = upload_chosen and as = attendance_chosen and lessonId = "JStr ''7''"
          and d = "''bad input''"]
      error_responses_are_reported [OF net refused(2),
        where rec = "Some lesson7" and l = lesson7 and f = picture and pg = blank_page
          and es = enroll_chosen and fs = face_chosen and as = attendance_chosen
          and lessonId = "JStr ''7''"]
      error_responses_are_reported [OF net refused(3),
        where currentLesson = "Some lesson7" and l = lesson7 and f = picture
          and pg = blank_page and enrollmentRecord = student12 and r = file3]
      error_responses_are_reported [OF net0 refused(4),
        where f = picture and pg = blank_page and as = attendance_chosen
          and lessonId = "JStr ''7''" and d = "''Not authenticated''"]
    by (simp add: pre tok codes b)
qed

section \<open>Successful responses\<close>











end
